theory Spec2Isabelle
  imports Main
begin

section \<open>Go values used by the repository\<close>

text \<open>
  A Go \<^verbatim>\<open>string\<close> is a sequence of bytes; it is modelled as \<^typ>\<open>string\<close> (a list
  of 8-bit characters), so a rune outside ASCII is its UTF-8 bytes.  A Go \<^verbatim>\<open>error\<close>
  is modelled by its message, and a nil error by \<^term>\<open>None\<close>.  A panic and
  \<^verbatim>\<open>log.Fatal\<close> end the run; they are the left injection of a sum whose right side is
  the value a call returns.
\<close>

type_synonym error = string

datatype abort = Panic string | Fatal string

text \<open>\<^verbatim>\<open>fmt.Sprintf("%v", n)\<close> for an \<^verbatim>\<open>int\<close>: the decimal numeral, with a sign
  when negative.\<close>

fun Sprint_nat :: "nat \<Rightarrow> string" where
  "Sprint_nat n =
     (if n < 10 then take 1 (drop n ''0123456789'')
      else Sprint_nat (n div 10) @ take 1 (drop (n mod 10) ''0123456789''))"

declare Sprint_nat.simps [simp del]

definition Sprint_int :: "int \<Rightarrow> string" where
  "Sprint_int i = (if i < 0 then ''-'' @ Sprint_nat (nat (- i)) else Sprint_nat (nat i))"

text \<open>\<^verbatim>\<open>strings.Split(s, sep)\<close> for a separator of one byte (the only call passes
  \<^verbatim>\<open>"/"\<close>): every piece between two separators, so one piece more than there are
  separators, and the one piece \<^verbatim>\<open>""\<close> for the empty string.\<close>

fun Split :: "string \<Rightarrow> char \<Rightarrow> string list" where
  "Split [] sep = [[]]"
| "Split (c # cs) sep =
     (if c = sep then [] # Split cs sep
      else (case Split cs sep of [] \<Rightarrow> [[c]] | p # ps \<Rightarrow> (c # p) # ps))"


section \<open>Repository identifiers (\<^verbatim>\<open>code/github.go\<close>)\<close>

definition malformed_identifier :: abort where
  \<open>malformed_identifier =
     Panic ''repository identifier was not in the correct format (i.e. "owner/name")''\<close>

definition RepoOwnerName :: "string \<Rightarrow> abort + (string \<times> string)" where
  "RepoOwnerName repo =
     (let ownerNameSlice = Split repo (CHR ''/'') in
      if length ownerNameSlice < 2 then Inl malformed_identifier
      else Inr (ownerNameSlice ! 0, ownerNameSlice ! 1))"

text \<open>The contract of section 4.1 of the specification, in its own words: split on the
  first \<^verbatim>\<open>/\<close>; fewer than two parts is a failure; an identifier whose owner or name is
  empty is rejected.\<close>

datatype spec_parse = MalformedIdentifier | Parsed string string

definition spec_RepoOwnerName :: "string \<Rightarrow> spec_parse" where
  "spec_RepoOwnerName repo =
     (if CHR ''/'' \<notin> set repo then MalformedIdentifier
      else let owner = takeWhile (\<lambda>c. c \<noteq> CHR ''/'') repo;
               name = drop 1 (dropWhile (\<lambda>c. c \<noteq> CHR ''/'') repo)
           in if owner = [] \<or> name = [] then MalformedIdentifier else Parsed owner name)"

section \<open>The two regular expressions\<close>

text \<open>
  \<^verbatim>\<open>regexp.MustCompile(`synced_.+\.y(a)?ml`)\<close> with \<^verbatim>\<open>MatchString\<close>, which looks
  for a match anywhere in the name (the expression has no anchors).  The literal parts
  are ASCII and \<^verbatim>\<open>.\<close> matches every rune but a line feed, so on bytes \<^verbatim>\<open>.+\<close> is a
  non-empty run of bytes without a line feed.
\<close>

definition match_extension :: "string \<Rightarrow> bool" where
  \<comment> \<open>\<^verbatim>\<open>\.y(a)?ml\<close> at the head of the text\<close>
  "match_extension s = (take 4 s = ''.yml'' \<or> take 5 s = ''.yaml'')"

fun match_any_then_extension :: "string \<Rightarrow> bool" where
  \<comment> \<open>\<^verbatim>\<open>.+\.y(a)?ml\<close> at the head of the text\<close>
  "match_any_then_extension [] = False"
| "match_any_then_extension (c # cs) =
     (c \<noteq> CHR 0x0A \<and> (match_extension cs \<or> match_any_then_extension cs))"

definition match_syncedFilePattern_here :: "string \<Rightarrow> bool" where
  \<comment> \<open>the whole expression at the head of the text\<close>
  "match_syncedFilePattern_here s =
     (take 7 s = ''synced_'' \<and> match_any_then_extension (drop 7 s))"

fun syncedFilePattern_MatchString :: "string \<Rightarrow> bool" where
  "syncedFilePattern_MatchString [] = match_syncedFilePattern_here []"
| "syncedFilePattern_MatchString (c # cs) =
     (match_syncedFilePattern_here (c # cs) \<or> syncedFilePattern_MatchString cs)"

definition isSyncedFile :: "string \<Rightarrow> bool" where
  \<comment> \<open>the closure of \<^verbatim>\<open>locallySync\<close>, applied to \<^verbatim>\<open>info.Name()\<close>\<close>
  "isSyncedFile name = syncedFilePattern_MatchString name"

text \<open>
  \<^verbatim>\<open>regexp.MustCompile(`\r\n|[\r\n\v\f\x{0085}\x{2028}\x{2029}]`)\<close>.  A match at the
  head of the text is CR LF (the first alternative is preferred), or one of CR, LF, VT, FF,
  or the UTF-8 bytes of U+0085, U+2028 or U+2029; \<open>newlinePattern_match\<close> is the number
  of bytes matched there, 0 for no match.  A lead byte never stands inside another rune,
  so matching the encodings bytewise finds the matches the rune scanner finds.
\<close>

definition newlinePattern_match :: "string \<Rightarrow> nat" where
  "newlinePattern_match s =
     (if take 2 s = [CHR 0x0D, CHR 0x0A] then 2
      else if take 1 s = [CHR 0x0D] \<or> take 1 s = [CHR 0x0A]
            \<or> take 1 s = [CHR 0x0B] \<or> take 1 s = [CHR 0x0C] then 1
      else if take 2 s = [CHR 0xC2, CHR 0x85] then 2
      else if take 3 s = [CHR 0xE2, CHR 0x80, CHR 0xA8]
            \<or> take 3 s = [CHR 0xE2, CHR 0x80, CHR 0xA9] then 3
      else 0)"

text \<open>\<^verbatim>\<open>newlinePattern.ReplaceAllString(s, "; ")\<close>: the leftmost match is replaced and
  the scan goes on behind it; a byte where nothing matches is copied.  The argument
  \<open>skip\<close> counts the bytes of the current match that are still to be dropped.\<close>

fun ReplaceAll_from :: "nat \<Rightarrow> string \<Rightarrow> string" where
  "ReplaceAll_from skip [] = []"
| "ReplaceAll_from (Suc skip) (c # cs) = ReplaceAll_from skip cs"
| "ReplaceAll_from 0 (c # cs) =
     (if newlinePattern_match (c # cs) = 0 then c # ReplaceAll_from 0 cs
      else ''; '' @ ReplaceAll_from (newlinePattern_match (c # cs) - 1) cs)"

definition newlinePattern_ReplaceAllString :: "string \<Rightarrow> string" where
  "newlinePattern_ReplaceAllString s = ReplaceAll_from 0 s"

text \<open>A text without a line break: the pattern matches at none of its positions.\<close>

fun no_line_break :: "string \<Rightarrow> bool" where
  "no_line_break [] = True"
| "no_line_break (c # cs) = (newlinePattern_match (c # cs) = 0 \<and> no_line_break cs)"


section \<open>\<^verbatim>\<open>time.Duration\<close>\<close>

text \<open>A duration is a signed 64-bit count of nanoseconds.  \<open>Duration_Round\<close> rounds
  half away from zero and saturates; \<open>Duration_String\<close> prints hours, minutes and
  seconds, or a smaller unit below one second.\<close>

definition maxDuration :: int where "maxDuration = 2 ^ 63 - 1"
definition minDuration :: int where "minDuration = - (2 ^ 63)"
definition Second :: int where "Second = 1000000000"

definition wrap64 :: "int \<Rightarrow> int" where
  "wrap64 x = (x + 2 ^ 63) mod 2 ^ 64 - 2 ^ 63"

definition Duration_Round :: "int \<Rightarrow> int \<Rightarrow> int" where
  "Duration_Round d m =
     (if m \<le> 0 then d
      else if d < 0 then
        (let r = (- d) mod m in
         if r + r < m then d + r
         else let d1 = wrap64 (d - m + r) in if d1 < d then d1 else minDuration)
      else
        (let r = d mod m in
         if r + r < m then d - r
         else let d1 = wrap64 (d + m - r) in if d1 > d then d1 else maxDuration))"

fun fmtFrac :: "nat \<Rightarrow> nat \<Rightarrow> bool \<Rightarrow> string \<Rightarrow> string \<times> nat" where
  "fmtFrac 0 v print acc = ((if print then ''.'' @ acc else acc), v)"
| "fmtFrac (Suc i) v print acc =
     (let digit = v mod 10; print' = (print \<or> digit \<noteq> 0) in
      fmtFrac i (v div 10) print' (if print' then Sprint_nat digit @ acc else acc))"

definition Duration_String :: "int \<Rightarrow> string" where
  "Duration_String d =
     (let u = nat \<bar>d\<bar>;
          text =
            (if u < 1000000000 then
               (if u = 0 then ''0s''
                else if u < 1000 then Sprint_nat u @ ''ns''
                else if u < 1000000 then
                  (case fmtFrac 3 u False [] of (f, v) \<Rightarrow>
                     Sprint_nat v @ f @ [CHR 0xC2, CHR 0xB5] @ ''s'')
                else (case fmtFrac 6 u False [] of (f, v) \<Rightarrow> Sprint_nat v @ f @ ''ms''))
             else
               (case fmtFrac 9 u False ''s'' of (f, secs) \<Rightarrow>
                  (let mins = secs div 60; hours = mins div 60 in
                   (if mins > 0
                    then (if hours > 0 then Sprint_nat hours @ ''h'' else []) @
                         Sprint_nat (mins mod 60) @ ''m''
                    else []) @ Sprint_nat (secs mod 60) @ f)))
      in if d < 0 then ''-'' @ text else text)"

section \<open>The report (\<^verbatim>\<open>code/sync-workflows/main.go\<close>)\<close>

text \<open>Of \<^verbatim>\<open>gogithub.PullRequest\<close> the report reads three fields, each a pointer.\<close>

record PullRequest =
  Title :: "string option"
  HTMLURL :: "string option"
  Number :: "int option"

record SyncedRepository =
  Identifier :: string
  Error :: "error option"
  ElapsedTime :: int
  PullRequest :: "PullRequest option"

definition nil_dereference :: abort where
  "nil_dereference = Panic ''runtime error: invalid memory address or nil pointer dereference''"

definition formatRepo :: "SyncedRepository \<Rightarrow> abort + string" where
  "formatRepo syncedRepo =
     (case RepoOwnerName (Identifier syncedRepo) of
        Inl a \<Rightarrow> Inl a
      | Inr (owner, name) \<Rightarrow>
          Inr (''**[`'' @ name @ ''`](https://github.com/'' @ Identifier syncedRepo @ '')**''))"

definition cross_mark :: string where
  "cross_mark = [CHR 0xE2, CHR 0x9D, CHR 0x8C]"

definition check_mark :: string where
  "check_mark = [CHR 0xE2, CHR 0x9C, CHR 0x94, CHR 0xEF, CHR 0xB8, CHR 0x8F]"

definition formatSuccess :: "SyncedRepository \<Rightarrow> string" where
  "formatSuccess syncedRepo = (if Error syncedRepo \<noteq> None then cross_mark else check_mark)"

definition formatPullRequestStatus :: "SyncedRepository \<Rightarrow> string" where
  \<open>formatPullRequestStatus syncedRepo =
     (let mergedImageUrl = ''https://github.com/workflow-sync-poc/component-1/assets/48988185/43f86b74-a8eb-4df3-a2f3-ac8e714784b5'';
          openImageUrl = ''https://github.com/workflow-sync-poc/component-1/assets/48988185/bc28bc57-f91c-4389-a103-d4524d4f6e39''
      in if Error syncedRepo \<noteq> None
         then ''<img align="center" src="'' @ openImageUrl @ ''"/>''
         else ''<img align="center" src="'' @ mergedImageUrl @ ''"/>'')\<close>

definition formatPullRequest :: "SyncedRepository \<Rightarrow> abort + string" where
  "formatPullRequest syncedRepo =
     (case PullRequest syncedRepo of
        Some pr \<Rightarrow>
          (case (Title pr, HTMLURL pr, Number pr) of
             (Some title, Some url, Some number) \<Rightarrow>
               Inr (''<ul><li>'' @ formatPullRequestStatus syncedRepo @ '' [**'' @ title @
                    ''**]('' @ url @ '') #'' @ Sprint_int number @ ''</li></ul>'')
           | _ \<Rightarrow> Inl nil_dereference)
      | None \<Rightarrow>
          Inr (''<ul><li>'' @
               (if Error syncedRepo \<noteq> None then ''Could not create.'' else ''No changes needed.'') @
               ''</li></ul>''))"

definition formatTime :: "SyncedRepository \<Rightarrow> string" where
  "formatTime syncedRepo = Duration_String (Duration_Round (ElapsedTime syncedRepo) Second)"

text \<open>One row of the table, and one entry of the error list.  The arguments of
  \<^verbatim>\<open>Sprintf\<close> are evaluated from left to right, so the first panic is the one seen.\<close>

definition table_row :: "SyncedRepository \<Rightarrow> abort + string" where
  "table_row syncedRepo =
     (case formatRepo syncedRepo of
        Inl a \<Rightarrow> Inl a
      | Inr repo \<Rightarrow>
          (case formatPullRequest syncedRepo of
             Inl a \<Rightarrow> Inl a
           | Inr pr \<Rightarrow>
               Inr (''| '' @ repo @ '' | '' @ formatSuccess syncedRepo @ '' | '' @ pr @
                    '' | '' @ formatTime syncedRepo @ '' |'')))"









section \<open>The outside world of \<^verbatim>\<open>code/github.go\<close>\<close>

text \<open>
  Every call that leaves the process (a git command, a request to the hosting platform,
  the environment, the file helpers of the package) is an event with its result.  The
  world answers a call from the events so far, so an answer may depend on everything that
  happened before.  A function of the package takes the events so far and returns its
  result with the events extended; logging is not an event.
\<close>

record response =
  StatusCode :: int
  Printed :: string  \<comment> \<open>what \<^verbatim>\<open>%v\<close> prints for the response\<close>

record NewPullRequest =
  pr_Title :: string
  pr_Head :: string
  pr_Base :: string
  pr_Body :: string
  pr_MaintainerCanModify :: bool

datatype event =
    RunCommand string "string list" "error option"
  | Getenv string string
  | Repositories_Get string string "string option" "error option"
  | Repositories_GetBranch string string string bool "response option" "error option"
  | PullRequests_Create string string NewPullRequest "response option" "error option"
  | PathExists string bool
  | DeleteDirectory string
  | CreateDirectory string "error option"
  | DeleteSpecificFiles string "error option"
  | CopySpecificFiles string string "error option"

text \<open>The helpers \<^verbatim>\<open>PathExists\<close>, \<^verbatim>\<open>DeleteDirectory\<close>, \<^verbatim>\<open>CreateDirectory\<close>,
  \<^verbatim>\<open>DeleteSpecificFiles\<close> and \<^verbatim>\<open>CopySpecificFiles\<close> belong to the package but not
  to the sources at hand; here they are calls the world answers.  The last two are always
  called with the predicate \<open>isSyncedFile\<close>.  \<^verbatim>\<open>Repositories.Get\<close> answers with the
  default branch of the repository it found, if any; \<^verbatim>\<open>GetBranch\<close> with whether it
  returned branch information.\<close>

record world =
  on_RunCommand :: "event list \<Rightarrow> string \<Rightarrow> string list \<Rightarrow> error option"
  on_Getenv :: "event list \<Rightarrow> string \<Rightarrow> string"
  on_Repositories_Get :: "event list \<Rightarrow> string \<Rightarrow> string \<Rightarrow> string option \<times> error option"
  on_Repositories_GetBranch ::
    "event list \<Rightarrow> string \<Rightarrow> string \<Rightarrow> string \<Rightarrow> bool \<times> response option \<times> error option"
  on_PullRequests_Create ::
    "event list \<Rightarrow> string \<Rightarrow> string \<Rightarrow> NewPullRequest \<Rightarrow> response option \<times> error option"
  on_PathExists :: "event list \<Rightarrow> string \<Rightarrow> bool"
  on_CreateDirectory :: "event list \<Rightarrow> string \<Rightarrow> error option"
  on_DeleteSpecificFiles :: "event list \<Rightarrow> string \<Rightarrow> error option"
  on_CopySpecificFiles :: "event list \<Rightarrow> string \<Rightarrow> string \<Rightarrow> error option"

definition runCommand ::
  "world \<Rightarrow> string \<Rightarrow> string list \<Rightarrow> event list \<Rightarrow> error option \<times> event list" where
  "runCommand w name args tr =
     (let r = on_RunCommand w tr name args in (r, tr @ [RunCommand name args r]))"

definition PathExists_call :: "world \<Rightarrow> string \<Rightarrow> event list \<Rightarrow> bool \<times> event list" where
  "PathExists_call w path tr = (let r = on_PathExists w tr path in (r, tr @ [PathExists path r]))"

definition DeleteDirectory_call :: "world \<Rightarrow> string \<Rightarrow> event list \<Rightarrow> event list" where
  "DeleteDirectory_call w path tr = tr @ [DeleteDirectory path]"

definition CreateDirectory_call ::
  "world \<Rightarrow> string \<Rightarrow> event list \<Rightarrow> error option \<times> event list" where
  "CreateDirectory_call w path tr =
     (let r = on_CreateDirectory w tr path in (r, tr @ [CreateDirectory path r]))"

definition DeleteSpecificFiles_call ::
  "world \<Rightarrow> string \<Rightarrow> event list \<Rightarrow> error option \<times> event list" where
  "DeleteSpecificFiles_call w path tr =
     (let r = on_DeleteSpecificFiles w tr path in (r, tr @ [DeleteSpecificFiles path r]))"

definition CopySpecificFiles_call ::
  "world \<Rightarrow> string \<Rightarrow> string \<Rightarrow> event list \<Rightarrow> error option \<times> event list" where
  "CopySpecificFiles_call w src dst tr =
     (let r = on_CopySpecificFiles w tr src dst in (r, tr @ [CopySpecificFiles src dst r]))"

section \<open>\<^verbatim>\<open>code/github.go\<close>\<close>

definition CloneRepository ::
  "world \<Rightarrow> string \<Rightarrow> string \<Rightarrow> event list \<Rightarrow> error option \<times> event list" where
  "CloneRepository w repo dir tr0 =
     (case PathExists_call w dir tr0 of (exists, tr1) \<Rightarrow>
      let tr2 = (if exists then DeleteDirectory_call w dir tr1 else tr1);
          repoUrl = ''https://github.com/'' @ repo @ ''.git''
      in case runCommand w ''git'' [''clone'', repoUrl, dir] tr2 of
           (Some err, tr3) \<Rightarrow>
             (Some (''could not clone git repository '' @ [CHR 0x27] @ repo @ [CHR 0x27] @
                    '' to '' @ [CHR 0x27] @ dir @ [CHR 0x27] @ '': '' @ err), tr3)
         | (None, tr3) \<Rightarrow>
             (case runCommand w ''git'' [''remote'', ''set-url'', ''origin'', repoUrl] tr3 of
                (Some err, tr4) \<Rightarrow>
                  (Some (''could not clone git repository '' @ [CHR 0x27] @ repo @ [CHR 0x27] @
                         '' to '' @ [CHR 0x27] @ dir @ [CHR 0x27] @ '': '' @ err), tr4)
              | (None, tr4) \<Rightarrow> (None, tr4)))"

text \<open>The client is the token it was built with.\<close>

definition getClient :: "world \<Rightarrow> event list \<Rightarrow> (abort + string) \<times> event list" where
  "getClient w tr =
     (let token = on_Getenv w tr ''GH_AUTH_TOKEN''; tr1 = tr @ [Getenv ''GH_AUTH_TOKEN'' token] in
      if token = [] then (Inl (Fatal ''no GH_AUTH_TOKEN provided''), tr1) else (Inr token, tr1))"

definition slug :: "string \<Rightarrow> string \<Rightarrow> string" where
  \<comment> \<open>\<^verbatim>\<open>'%s/%s\<close> of the messages, with the opening quote\<close>
  "slug owner name = [CHR 0x27] @ owner @ ''/'' @ name"

definition getDefaultBranch ::
  "world \<Rightarrow> string \<Rightarrow> string \<Rightarrow> string \<Rightarrow> event list \<Rightarrow> (error + string) \<times> event list" where
  "getDefaultBranch w client owner name tr =
     (case on_Repositories_Get w tr owner name of (repoInfo, err) \<Rightarrow>
      let tr1 = tr @ [Repositories_Get owner name repoInfo err] in
      case err of
        Some e \<Rightarrow>
          (Inl (''could not get repository info from '' @ slug owner name @ [CHR 0x27] @
                '': '' @ e), tr1)
      | None \<Rightarrow> (Inr (case repoInfo of None \<Rightarrow> [] | Some branch \<Rightarrow> branch), tr1))"

definition BranchExists ::
  "world \<Rightarrow> string \<Rightarrow> string \<Rightarrow> string \<Rightarrow> string \<Rightarrow> event list
     \<Rightarrow> (abort + (error + bool)) \<times> event list" where
  "BranchExists w client owner name branch tr =
     (case on_Repositories_GetBranch w tr owner name branch of (branchInfo, response, err) \<Rightarrow>
      let tr1 = tr @ [Repositories_GetBranch owner name branch branchInfo response err] in
      case response of
        None \<Rightarrow> (Inl nil_dereference, tr1)
      | Some resp \<Rightarrow>
          if StatusCode resp = 404 then (Inr (Inr False), tr1)
          else (case err of
                  Some e \<Rightarrow>
                    (Inr (Inl (''could not get branch info from '' @ slug owner name @ ''@'' @
                               branch @ [CHR 0x27] @ '': '' @ e)), tr1)
                | None \<Rightarrow> (Inr (Inr branchInfo), tr1)))"

definition DeleteBranch ::
  "world \<Rightarrow> string \<Rightarrow> string \<Rightarrow> string \<Rightarrow> string \<Rightarrow> event list \<Rightarrow> error option \<times> event list"
where
  "DeleteBranch w client owner name branch tr =
     (case getDefaultBranch w client owner name tr of
        (Inl err, tr1) \<Rightarrow>
          (Some (''could not get default branch in '' @ slug owner name @ [CHR 0x27] @
                 '': '' @ err), tr1)
      | (Inr defaultBranch, tr1) \<Rightarrow>
          (case runCommand w ''git'' [''checkout'', defaultBranch] tr1 of
             (Some err, tr2) \<Rightarrow>
               (Some (''could not checkout default branch '' @ slug owner name @ ''@'' @
                      defaultBranch @ [CHR 0x27] @ '': '' @ err), tr2)
           | (None, tr2) \<Rightarrow>
               (case runCommand w ''git'' [''branch'', ''-D'', branch] tr2 of
                  (Some err, tr3) \<Rightarrow>
                    (Some (''could not delete branch locally '' @ slug owner name @ ''@'' @
                           branch @ [CHR 0x27] @ '': '' @ err), tr3)
                | (None, tr3) \<Rightarrow>
                    (case runCommand w ''git'' [''push'', ''origin'', ''--delete'', branch] tr3 of
                       (Some err, tr4) \<Rightarrow>
                         (Some (''could not delete branch remotely '' @ slug owner name @ ''@'' @
                                branch @ [CHR 0x27] @ '': '' @ err), tr4)
                     | (None, tr4) \<Rightarrow> (None, tr4)))))"

text \<open>The two commands that follow the check of the old branch.\<close>

definition checkout_and_push ::
  "world \<Rightarrow> string \<Rightarrow> string \<Rightarrow> string \<Rightarrow> event list \<Rightarrow> error option \<times> event list" where
  "checkout_and_push w owner name branch tr =
     (case runCommand w ''git'' [''checkout'', ''-b'', branch] tr of
        (Some err, tr1) \<Rightarrow>
          (Some (''could not checkout '' @ slug owner name @ ''@'' @ branch @ [CHR 0x27] @
                 '': '' @ err), tr1)
      | (None, tr1) \<Rightarrow>
          (case runCommand w ''git'' [''push'', ''-u'', ''origin'', branch] tr1 of
             (Some err, tr2) \<Rightarrow>
               (Some (''could not push to remote '' @ slug owner name @ ''@'' @ branch @
                      [CHR 0x27] @ '': '' @ err), tr2)
           | (None, tr2) \<Rightarrow> (None, tr2)))"

definition CreateAndPushToNewBranch ::
  "world \<Rightarrow> string \<Rightarrow> string \<Rightarrow> string \<Rightarrow> string \<Rightarrow> event list
     \<Rightarrow> (abort + error option) \<times> event list" where
  "CreateAndPushToNewBranch w client owner name branch tr =
     (case BranchExists w client owner name branch tr of
        (Inl a, tr1) \<Rightarrow> (Inl a, tr1)
      | (Inr (Inl err), tr1) \<Rightarrow>
          (Inr (Some (''could not see if old '' @ [CHR 0x27] @ branch @ [CHR 0x27] @
                      '' branch exists: '' @ err)), tr1)
      | (Inr (Inr exists), tr1) \<Rightarrow>
          if exists then
            (case DeleteBranch w client owner name branch tr1 of
               (Some err, tr2) \<Rightarrow>
                 (Inr (Some (''could not delete old '' @ [CHR 0x27] @ branch @ [CHR 0x27] @
                             '' branch: '' @ err)), tr2)
             | (None, tr2) \<Rightarrow>
                 (case checkout_and_push w owner name branch tr2 of (r, tr3) \<Rightarrow> (Inr r, tr3)))
          else (case checkout_and_push w owner name branch tr1 of (r, tr3) \<Rightarrow> (Inr r, tr3)))"

text \<open>The part of \<^verbatim>\<open>locallySync\<close> behind the clone: the file transfer.\<close>

definition transfer_files ::
  "world \<Rightarrow> string \<Rightarrow> string \<Rightarrow> string \<Rightarrow> event list \<Rightarrow> error option \<times> event list" where
  "transfer_files w targetRepo targetWorkflowPath sourceWorkflowPath tr1 =
     (case PathExists_call w targetWorkflowPath tr1 of (exists, tr2) \<Rightarrow>
      case (if \<not> exists then CreateDirectory_call w targetWorkflowPath tr2 else (None, tr2)) of
        (Some err, tr3) \<Rightarrow>
          (Some (''could not create workflow path for target repo '' @ [CHR 0x27] @ targetRepo @
                 [CHR 0x27] @ '': '' @ err), tr3)
      | (None, tr3) \<Rightarrow>
          (case DeleteSpecificFiles_call w targetWorkflowPath tr3 of
             (Some err, tr4) \<Rightarrow>
               (Some (''could not delete synced workflow files from target repo '' @ [CHR 0x27] @
                      targetRepo @ [CHR 0x27] @ '': '' @ err), tr4)
           | (None, tr4) \<Rightarrow>
               (case CopySpecificFiles_call w sourceWorkflowPath targetWorkflowPath tr4 of
                  (Some err, tr5) \<Rightarrow>
                    (Some (''could not copy synced workflow files to target repo '' @ [CHR 0x27] @
                           targetRepo @ [CHR 0x27] @ '': '' @ err), tr5)
                | (None, tr5) \<Rightarrow> (None, tr5))))"

definition locallySync ::
  "world \<Rightarrow> string \<Rightarrow> string \<Rightarrow> event list \<Rightarrow> error option \<times> event list" where
  "locallySync w targetRepo sourceRepoDir tr0 =
     (let targetRepoDir = ''TargetRepo'' in
      case CloneRepository w targetRepo targetRepoDir tr0 of
        (Some err, tr1) \<Rightarrow> (Some err, tr1)
      | (None, tr1) \<Rightarrow>
          transfer_files w targetRepo (targetRepoDir @ ''/.github/workflows'')
            (sourceRepoDir @ ''/.github/workflows'') tr1)"

definition isOk :: "response option \<Rightarrow> abort + bool" where
  "isOk response =
     (case response of
        None \<Rightarrow> Inl nil_dereference
      | Some resp \<Rightarrow>
          (case Sprint_int (StatusCode resp) of
             [] \<Rightarrow> Inl (Panic ''runtime error: index out of range [0] with length 0'')
           | c # _ \<Rightarrow> Inr (c \<noteq> CHR ''2'')))"

definition newPullRequest :: "string \<Rightarrow> string \<Rightarrow> NewPullRequest" where
  "newPullRequest featureBranch defaultBranch =
     \<lparr>pr_Title = ''(sync): update workflows'', pr_Head = featureBranch, pr_Base = defaultBranch,
      pr_Body = [], pr_MaintainerCanModify = True\<rparr>"

text \<open>The end of \<^verbatim>\<open>SyncRepository\<close>: the request that creates the pull request, and
  what is made of its answer.\<close>

definition create_pull_request ::
  "world \<Rightarrow> string \<Rightarrow> string \<Rightarrow> string \<Rightarrow> string \<Rightarrow> event list
     \<Rightarrow> (abort + error option) \<times> event list" where
  "create_pull_request w owner name featureBranch defaultBranch tr =
     (case on_PullRequests_Create w tr owner name (newPullRequest featureBranch defaultBranch) of
        (response, err) \<Rightarrow>
      let tr1 = tr @ [PullRequests_Create owner name (newPullRequest featureBranch defaultBranch)
                        response err];
          failed = ''could not create pull request from '' @ [CHR 0x27] @ featureBranch @
                   [CHR 0x27] @ '' to '' @ [CHR 0x27] @ defaultBranch @ [CHR 0x27] @ '': ''
      in case err of
           Some e \<Rightarrow> (Inr (Some (failed @ e)), tr1)
         | None \<Rightarrow>
             (case isOk response of
                Inl a \<Rightarrow> (Inl a, tr1)
              | Inr ok \<Rightarrow>
                  if \<not> ok
                  then (Inr (Some (failed @ (case response of None \<Rightarrow> [] | Some r \<Rightarrow> Printed r))), tr1)
                  else (Inr None, tr1)))"

definition SyncRepository ::
  "world \<Rightarrow> string \<Rightarrow> string \<Rightarrow> event list \<Rightarrow> (abort + error option) \<times> event list" where
  "SyncRepository w targetRepo sourceRepoDir tr0 =
     (case RepoOwnerName targetRepo of
        Inl a \<Rightarrow> (Inl a, tr0)
      | Inr (owner, name) \<Rightarrow>
          (case getClient w tr0 of
             (Inl a, tr1) \<Rightarrow> (Inl a, tr1)
           | (Inr client, tr1) \<Rightarrow>
               (case getDefaultBranch w client owner name tr1 of
                  (Inl err, tr2) \<Rightarrow> (Inr (Some err), tr2)
                | (Inr defaultBranch, tr2) \<Rightarrow>
                    (let featureBranch = ''sync-workflows'' in
                     case CreateAndPushToNewBranch w client owner name featureBranch tr2 of
                       (Inl a, tr3) \<Rightarrow> (Inl a, tr3)
                     | (Inr (Some err), tr3) \<Rightarrow>
                         (Inr (Some (''could not create and push to new branch '' @ [CHR 0x27] @
                                     featureBranch @ [CHR 0x27] @ '': '' @ err)), tr3)
                     | (Inr None, tr3) \<Rightarrow>
                         (case locallySync w targetRepo sourceRepoDir tr3 of
                            (Some err, tr4) \<Rightarrow>
                              (Inr (Some (''could not sync locally: '' @ err)), tr4)
                          | (None, tr4) \<Rightarrow>
                              create_pull_request w owner name featureBranch defaultBranch tr4)))))"

section \<open>The run (\<^verbatim>\<open>main\<close> of \<^verbatim>\<open>code/sync-workflows/main.go\<close>)\<close>













section \<open>The file helpers, on a directory\<close>

text \<open>
  Modelled from the spec: \<^verbatim>\<open>DeleteSpecificFiles\<close> and \<^verbatim>\<open>CopySpecificFiles\<close> are
  functions of the package that the sources at hand do not contain.  Section 4.3 of the
  specification: ``delete every managed file currently in the target directory, then copy
  every managed file from the source directory into the target directory''.  A directory
  is a map from file names to contents.
\<close>

type_synonym directory = "string \<rightharpoonup> string"

definition DeleteSpecificFiles_spec :: "directory \<Rightarrow> (string \<Rightarrow> bool) \<Rightarrow> directory" where
  "DeleteSpecificFiles_spec dir selected = (\<lambda>name. if selected name then None else dir name)"

definition CopySpecificFiles_spec ::
  "directory \<Rightarrow> directory \<Rightarrow> (string \<Rightarrow> bool) \<Rightarrow> directory" where
  "CopySpecificFiles_spec src dst selected =
     (\<lambda>name. if selected name \<and> src name \<noteq> None then src name else dst name)"

text \<open>The two steps as \<^verbatim>\<open>locallySync\<close> calls them: both with \<open>isSyncedFile\<close>, the
  deletion first.\<close>

definition transfer_spec :: "directory \<Rightarrow> directory \<Rightarrow> directory" where
  "transfer_spec sourceWorkflows targetWorkflows =
     CopySpecificFiles_spec sourceWorkflows
       (DeleteSpecificFiles_spec targetWorkflows isSyncedFile) isSyncedFile"

text \<open>The managed-file pattern of the specification, read as a form of the whole name:
  \<^verbatim>\<open>synced_<name>.yml\<close> or \<^verbatim>\<open>synced_<name>.yaml\<close> with a name that is not empty.\<close>

definition spec_managed_file :: "string \<Rightarrow> bool" where
  "spec_managed_file f =
     (take 7 f = ''synced_'' \<and>
      ((11 < length f \<and> drop (length f - 4) f = ''.yml'') \<or>
       (12 < length f \<and> drop (length f - 5) f = ''.yaml'')))"

section \<open>Kinds of events, and a world in which every call succeeds\<close>

fun is_file_transfer :: "event \<Rightarrow> bool" where
  "is_file_transfer (CreateDirectory path r) = True"
| "is_file_transfer (DeleteSpecificFiles path r) = True"
| "is_file_transfer (CopySpecificFiles src dst r) = True"
| "is_file_transfer e = False"

fun is_git :: "string \<Rightarrow> event \<Rightarrow> bool" where
  \<comment> \<open>a git command with the given subcommand\<close>
  "is_git sub (RunCommand name args r) = (name = ''git'' \<and> take 1 args = [sub])"
| "is_git sub e = False"

text \<open>The hosting platform as it answers when all is well: the repository has the
  default branch \<^verbatim>\<open>main\<close>, the feature branch does not exist yet (status 404, which the
  client library reports with an error as well), and the pull request is created (status
  201 and no error).  Every command succeeds and no directory exists beforehand.\<close>

definition not_found :: response where
  "not_found = \<lparr>StatusCode = 404, Printed = ''404 Not Found''\<rparr>"

definition created :: response where
  "created = \<lparr>StatusCode = 201, Printed = ''201 Created''\<rparr>"

definition calm_world :: world where
  "calm_world =
     \<lparr>on_RunCommand = (\<lambda>tr name args. None),
      on_Getenv = (\<lambda>tr name. ''token''),
      on_Repositories_Get = (\<lambda>tr owner name. (Some ''main'', None)),
      on_Repositories_GetBranch =
        (\<lambda>tr owner name branch. (False, Some not_found, Some ''404 Not Found'')),
      on_PullRequests_Create = (\<lambda>tr owner name pr. (Some created, None)),
      on_PathExists = (\<lambda>tr path. False),
      on_CreateDirectory = (\<lambda>tr path. None),
      on_DeleteSpecificFiles = (\<lambda>tr path. None),
      on_CopySpecificFiles = (\<lambda>tr src dst. None)\<rparr>"

text \<open>Three kinds of events: what the reconciliation of the feature branch does, what
  \<^verbatim>\<open>locallySync\<close> does once the clone command has run, and the copy step that ended
  without error.\<close>

fun is_branch_step :: "event \<Rightarrow> bool" where
  "is_branch_step (Getenv name v) = True"
| "is_branch_step (Repositories_Get owner name info err) = True"
| "is_branch_step (Repositories_GetBranch owner name branch info resp err) = True"
| "is_branch_step (RunCommand name args r) =
     (name = ''git'' \<and>
      (take 1 args = [''checkout''] \<or> take 1 args = [''branch''] \<or> take 1 args = [''push'']))"
| "is_branch_step e = False"

fun is_local_step :: "event \<Rightarrow> bool" where
  "is_local_step (PathExists path r) = (path = ''TargetRepo/.github/workflows'')"
| "is_local_step (CreateDirectory path r) = (path = ''TargetRepo/.github/workflows'')"
| "is_local_step (DeleteSpecificFiles path r) = (path = ''TargetRepo/.github/workflows'')"
| "is_local_step (CopySpecificFiles src dst r) = (dst = ''TargetRepo/.github/workflows'')"
| "is_local_step (RunCommand name args r) = (name = ''git'' \<and> take 1 args = [''remote''])"
| "is_local_step e = False"

text \<open>A file-transfer operation that works in the workflow directory of the clone
  \<^verbatim>\<open>TargetRepo\<close>; and what an attempt may do once the clone is made: set the remote,
  look at that workflow directory and transfer files in it, and ask for the pull request.
  It neither deletes a directory nor clones again.\<close>

fun works_in_clone :: "event \<Rightarrow> bool" where
  "works_in_clone (CreateDirectory path r) = (path = ''TargetRepo/.github/workflows'')"
| "works_in_clone (DeleteSpecificFiles path r) = (path = ''TargetRepo/.github/workflows'')"
| "works_in_clone (CopySpecificFiles src dst r) = (dst = ''TargetRepo/.github/workflows'')"
| "works_in_clone e = False"

fun after_clone_step :: "event \<Rightarrow> bool" where
  "after_clone_step (RunCommand name args r) = (name = ''git'' \<and> take 1 args = [''remote''])"
| "after_clone_step (PathExists path r) = (path = ''TargetRepo/.github/workflows'')"
| "after_clone_step (CreateDirectory path r) = (path = ''TargetRepo/.github/workflows'')"
| "after_clone_step (DeleteSpecificFiles path r) = (path = ''TargetRepo/.github/workflows'')"
| "after_clone_step (CopySpecificFiles src dst r) = (dst = ''TargetRepo/.github/workflows'')"
| "after_clone_step (PullRequests_Create owner name pr resp err) = True"
| "after_clone_step e = False"

fun is_completed_copy :: "event \<Rightarrow> bool" where
  "is_completed_copy (CopySpecificFiles src dst None) = True"
| "is_completed_copy e = False"

text \<open>The first events of \<^verbatim>\<open>CloneRepository\<close> on the shared directory: the check
  whether it exists, with the world's answer at that moment, and its deletion exactly
  when the answer is yes.  Then the clone command, with its result.\<close>

definition removal_of_old_clone :: "world \<Rightarrow> event list \<Rightarrow> event list" where
  "removal_of_old_clone w tr =
     PathExists ''TargetRepo'' (on_PathExists w tr ''TargetRepo'') #
     (if on_PathExists w tr ''TargetRepo'' then [DeleteDirectory ''TargetRepo''] else [])"

definition clone_command :: "string \<Rightarrow> error option \<Rightarrow> event" where
  "clone_command targetRepo r =
     RunCommand ''git''
       [''clone'', ''https://github.com/'' @ targetRepo @ ''.git'', ''TargetRepo''] r"

text \<open>Variations of the calm world: the clone directory is left over from an earlier
  target; the lookup of the branch fails without a response; it fails with a response
  that is not 404.\<close>

definition leftover_world :: world where
  "leftover_world = calm_world\<lparr>on_PathExists := (\<lambda>tr path. path = ''TargetRepo'')\<rparr>"

definition timeout_world :: world where
  "timeout_world =
     calm_world\<lparr>on_Repositories_GetBranch :=
       (\<lambda>tr owner name branch. (False, None, Some ''dial tcp: i/o timeout''))\<rparr>"

definition server_error :: response where
  "server_error = \<lparr>StatusCode = 500, Printed = ''500 Internal Server Error''\<rparr>"

definition server_error_world :: world where
  "server_error_world =
     calm_world\<lparr>on_Repositories_GetBranch :=
       (\<lambda>tr owner name branch. (False, Some server_error, Some ''500 Internal Server Error''))\<rparr>"

section \<open>Reading a report and a run\<close>


definition failed :: "SyncedRepository \<Rightarrow> bool" where
  "failed r = (Error r \<noteq> None)"


definition repo_link :: "SyncedRepository \<Rightarrow> string" where
  "repo_link r = (case formatRepo r of Inl a \<Rightarrow> [] | Inr link \<Rightarrow> link)"

definition row_of :: "SyncedRepository \<Rightarrow> string" where
  "row_of r = (case table_row r of Inl a \<Rightarrow> [] | Inr row \<Rightarrow> row)"

definition error_summary :: "SyncedRepository \<Rightarrow> string" where
  "error_summary r =
     ''- '' @ cross_mark @ '' '' @ repo_link r @ '' ('' @
     newlinePattern_ReplaceAllString (case Error r of None \<Rightarrow> [] | Some message \<Rightarrow> message) @ '')''"

text \<open>A byte that stands in none of the line breaks.\<close>

definition plain :: "char \<Rightarrow> bool" where
  "plain c =
     (c \<noteq> CHR 0x0D \<and> c \<noteq> CHR 0x0A \<and> c \<noteq> CHR 0x0B \<and> c \<noteq> CHR 0x0C \<and> c \<noteq> CHR 0xC2 \<and>
      c \<noteq> CHR 0xE2 \<and> c \<noteq> CHR 0x85 \<and> c \<noteq> CHR 0x80 \<and> c \<noteq> CHR 0xA8 \<and> c \<noteq> CHR 0xA9)"






section \<open>Example runs\<close>

text \<open>The scenario of the specification: the version \<^verbatim>\<open>v2.3.1\<close>; the sync to
  \<^verbatim>\<open>org/a\<close> creates pull request 12, the sync to \<^verbatim>\<open>org/b\<close> fails with a network
  error of two lines.  An attempt ends 61.5 seconds after the one before.  A second step
  fails for every target with a returned error.\<close>

definition pull_request_12 :: PullRequest where
  "pull_request_12 =
     \<lparr>Title = Some ''(sync): update workflows'',
      HTMLURL = Some ''https://github.com/org/a/pull/12'', Number = Some 12\<rparr>"

definition network_error :: error where
  "network_error =
     ''could not create and push to new branch: network is unreachable'' @ [CHR 0x0D, CHR 0x0A] @
     ''exit status 128''"




definition outcome_a :: SyncedRepository where
  "outcome_a =
     \<lparr>Identifier = ''org/a'', Error = None, ElapsedTime = 61500000000,
      PullRequest = Some pull_request_12\<rparr>"

definition outcome_b :: SyncedRepository where
  "outcome_b =
     \<lparr>Identifier = ''org/b'', Error = Some network_error, ElapsedTime = 123000000000,
      PullRequest = None\<rparr>"


section \<open>Parsing of identifiers\<close>

lemma Split_not_Nil: "Split s sep \<noteq> []"
  by (induction s) (auto split: list.splits)

lemma Split_no_sep: "sep \<notin> set s \<Longrightarrow> Split s sep = [s]"
  by (induction s) auto

lemma Split_append_sep:
  "sep \<notin> set a \<Longrightarrow> Split (a @ sep # b) sep = a # Split b sep"
  by (induction a) (auto simp: Split_not_Nil split: list.splits)

lemma Split_decompose:
  "Split s sep =
     (if sep \<in> set s
      then takeWhile (\<lambda>c. c \<noteq> sep) s # Split (drop 1 (dropWhile (\<lambda>c. c \<noteq> sep) s)) sep
      else [s])"
  by (induction s) (auto simp: Split_not_Nil Split_no_sep split: list.splits)

lemma hd_Split: "hd (Split s sep) = takeWhile (\<lambda>c. c \<noteq> sep) s"
  by (induction s) (auto simp: Split_not_Nil split: list.splits)

lemma length_Split_ge2: "sep \<in> set s \<Longrightarrow> 2 \<le> length (Split s sep)"
  by (induction s) (auto simp: Split_not_Nil split: list.splits)

lemma Split_nth0: "Split s sep ! 0 = takeWhile (\<lambda>c. c \<noteq> sep) s"
  using hd_Split [of s sep] Split_not_Nil [of s sep] by (simp add: hd_conv_nth)

lemma Split_nth1:
  "sep \<in> set s \<Longrightarrow>
   Split s sep ! 1 = takeWhile (\<lambda>c. c \<noteq> sep) (drop 1 (dropWhile (\<lambda>c. c \<noteq> sep) s))"
  by (subst Split_decompose) (simp add: Split_nth0)

lemma RepoOwnerName_no_slash:
  "CHR ''/'' \<notin> set repo \<Longrightarrow> RepoOwnerName repo = Inl malformed_identifier"
  by (simp add: RepoOwnerName_def Split_no_sep)

lemma RepoOwnerName_slash:
  "CHR ''/'' \<in> set repo \<Longrightarrow>
   RepoOwnerName repo =
     Inr (takeWhile (\<lambda>c. c \<noteq> CHR ''/'') repo,
          takeWhile (\<lambda>c. c \<noteq> CHR ''/'') (drop 1 (dropWhile (\<lambda>c. c \<noteq> CHR ''/'') repo)))"
  using length_Split_ge2 [of "CHR ''/''" repo] Split_nth1 [of "CHR ''/''" repo]
  by (simp add: RepoOwnerName_def Let_def Split_nth0 del: One_nat_def)

text \<open>
  Claim C6, as the code has it.  A string without \<^verbatim>\<open>/\<close> makes \<open>RepoOwnerName\<close>
  panic with the malformed-identifier message.  A string with a \<^verbatim>\<open>/\<close> yields the text
  before the first \<^verbatim>\<open>/\<close> and the text between the first \<^verbatim>\<open>/\<close> and the second one
  (or the end of the string when there is no second): the split is on every \<^verbatim>\<open>/\<close> and
  the first two pieces are returned.  So \<^verbatim>\<open>owner/name\<close> with no \<^verbatim>\<open>/\<close> in either part
  yields exactly (owner, name), also when a part is empty.
\<close>

theorem RepoOwnerName_first_two_pieces:
  "(CHR ''/'' \<notin> set repo \<longrightarrow> RepoOwnerName repo = Inl malformed_identifier) \<and>
   (CHR ''/'' \<in> set repo \<longrightarrow>
      RepoOwnerName repo =
        Inr (takeWhile (\<lambda>c. c \<noteq> CHR ''/'') repo,
             takeWhile (\<lambda>c. c \<noteq> CHR ''/'')
               (drop 1 (dropWhile (\<lambda>c. c \<noteq> CHR ''/'') repo)))) \<and>
   (CHR ''/'' \<notin> set owner \<and> CHR ''/'' \<notin> set name \<longrightarrow>
      RepoOwnerName (owner @ ''/'' @ name) = Inr (owner, name))"
proof (intro conjI impI)
  assume "CHR ''/'' \<notin> set owner \<and> CHR ''/'' \<notin> set name"
  then show "RepoOwnerName (owner @ ''/'' @ name) = Inr (owner, name)"
    by (simp add: RepoOwnerName_def Let_def Split_append_sep Split_no_sep)
qed (simp_all add: RepoOwnerName_no_slash RepoOwnerName_slash)

theorem RepoOwnerName_first_two_pieces_witness:
  "RepoOwnerName ''workflows'' = Inl malformed_identifier \<and>
   RepoOwnerName ''org/a/b'' = Inr (''org'', ''a'') \<and>
   RepoOwnerName ''org/a'' = Inr (''org'', ''a'')"
  using RepoOwnerName_first_two_pieces [of "''workflows''" "''org''" "''a''"]
        RepoOwnerName_first_two_pieces [of "''org/a/b''" "''org''" "''a''"]
  by simp

text \<open>
  Claim C6 as stated fails: on \<^verbatim>\<open>a/b/c\<close> the code returns the name \<^verbatim>\<open>b\<close>, not the
  entire text \<^verbatim>\<open>b/c\<close> after the first \<^verbatim>\<open>/\<close>, and it accepts the identifiers \<^verbatim>\<open>/x\<close>
  and \<^verbatim>\<open>a/\<close>, whose owner or name is empty.
\<close>

theorem RepoOwnerName_counterexample:
  "RepoOwnerName ''a/b/c'' = Inr (''a'', ''b'') \<and>
   spec_RepoOwnerName ''a/b/c'' = Parsed ''a'' ''b/c'' \<and>
   RepoOwnerName ''/x'' = Inr ([], ''x'') \<and>
   spec_RepoOwnerName ''/x'' = MalformedIdentifier \<and>
   RepoOwnerName ''a/'' = Inr (''a'', []) \<and>
   spec_RepoOwnerName ''a/'' = MalformedIdentifier"
  by (simp add: RepoOwnerName_def spec_RepoOwnerName_def)

section \<open>The events of a sync attempt\<close>

lemma branch_step_not_copy: "is_branch_step e \<Longrightarrow> \<not> is_completed_copy e"
  by (cases e) auto

lemma list_all_mono: "list_all P xs \<Longrightarrow> (\<And>x. P x \<Longrightarrow> Q x) \<Longrightarrow> list_all Q xs"
  by (induction xs) auto

lemma getDefaultBranch_events:
  "getDefaultBranch w c owner name tr = (r, tr') \<Longrightarrow>
   \<exists>new. tr' = tr @ new \<and> list_all is_branch_step new"
  by (auto simp: getDefaultBranch_def Let_def split: prod.splits option.splits)

lemma BranchExists_events:
  "BranchExists w c owner name b tr = (r, tr') \<Longrightarrow>
   \<exists>new. tr' = tr @ new \<and> list_all is_branch_step new"
  by (auto simp: BranchExists_def Let_def split: prod.splits option.splits if_splits)

lemma checkout_and_push_events:
  "checkout_and_push w owner name b tr = (r, tr') \<Longrightarrow>
   \<exists>new. tr' = tr @ new \<and> list_all is_branch_step new"
  by (auto simp: checkout_and_push_def runCommand_def Let_def split: prod.splits option.splits if_splits)

lemma DeleteBranch_events:
  "DeleteBranch w c owner name b tr = (r, tr') \<Longrightarrow>
   \<exists>new. tr' = tr @ new \<and> list_all is_branch_step new"
  by (auto simp: DeleteBranch_def getDefaultBranch_def runCommand_def Let_def split: prod.splits option.splits if_splits sum.splits)

lemma CreateAndPushToNewBranch_events:
  assumes "CreateAndPushToNewBranch w c owner name b tr = (r, tr')"
  shows "\<exists>new. tr' = tr @ new \<and> list_all is_branch_step new"
  using assms
  by (fastforce simp: CreateAndPushToNewBranch_def split: prod.splits sum.splits if_splits option.splits
       dest!: BranchExists_events DeleteBranch_events checkout_and_push_events)


lemma CloneRepository_events:
  "CloneRepository w repo dir tr = (r, tr') \<Longrightarrow>
   \<exists>rest. tr' = tr @ PathExists dir (on_PathExists w tr dir) #
                 (if on_PathExists w tr dir then [DeleteDirectory dir] else []) @
                 RunCommand ''git'' [''clone'', ''https://github.com/'' @ repo @ ''.git'', dir]
                   (on_RunCommand w
                      (tr @ PathExists dir (on_PathExists w tr dir) #
                         (if on_PathExists w tr dir then [DeleteDirectory dir] else []))
                      ''git'' [''clone'', ''https://github.com/'' @ repo @ ''.git'', dir]) # rest \<and>
          list_all (\<lambda>e. is_local_step e \<and> \<not> is_file_transfer e) rest \<and>
          (r = None \<longrightarrow>
             on_RunCommand w
                      (tr @ PathExists dir (on_PathExists w tr dir) #
                         (if on_PathExists w tr dir then [DeleteDirectory dir] else []))
                      ''git'' [''clone'', ''https://github.com/'' @ repo @ ''.git'', dir] = None)"
  by (auto simp: CloneRepository_def PathExists_call_def DeleteDirectory_call_def runCommand_def Let_def
      split: prod.splits option.splits if_splits)

lemma transfer_files_events:
  "transfer_files w t (''TargetRepo'' @ ''/.github/workflows'') src tr = (r, tr') \<Longrightarrow>
   \<exists>new. tr' = tr @ new \<and> list_all is_local_step new \<and>
     (r = None \<longrightarrow> (\<exists>front. new = front @ [CopySpecificFiles src (''TargetRepo'' @ ''/.github/workflows'') None])) \<and>
     (r \<noteq> None \<longrightarrow> list_all (\<lambda>e. \<not> is_completed_copy e) new)"
  by (auto simp: transfer_files_def PathExists_call_def CreateDirectory_call_def
        DeleteSpecificFiles_call_def CopySpecificFiles_call_def Let_def
      split: prod.splits option.splits if_splits)


lemma locallySync_events:
  assumes "locallySync w t s tr = (r, tr')"
  shows "\<exists>c rest. tr' = tr @ removal_of_old_clone w tr @ clone_command t c # rest \<and>
           list_all is_local_step rest \<and>
           ((\<exists>e\<in>set rest. is_file_transfer e) \<longrightarrow> c = None) \<and>
           (r = None \<longrightarrow> (\<exists>front. rest = front @ [CopySpecificFiles (s @ ''/.github/workflows'') (''TargetRepo'' @ ''/.github/workflows'') None])) \<and>
           (r \<noteq> None \<longrightarrow> list_all (\<lambda>e. \<not> is_completed_copy e) rest)"
proof (cases "fst (CloneRepository w t ''TargetRepo'' tr)")
  case None
  obtain tr1 where c: "CloneRepository w t ''TargetRepo'' tr = (None, tr1)"
    using None by (cases "CloneRepository w t ''TargetRepo'' tr") simp
  from CloneRepository_events [OF c] obtain rest1 where
    r1: "tr1 = tr @ removal_of_old_clone w tr @ clone_command t None # rest1"
    and l1: "list_all (\<lambda>e. is_local_step e \<and> \<not> is_file_transfer e) rest1"
    by (auto simp: removal_of_old_clone_def clone_command_def)
  have t: "transfer_files w t (''TargetRepo'' @ ''/.github/workflows'') (s @ ''/.github/workflows'') tr1 = (r, tr')"
    using assms c by (simp add: locallySync_def)
  from transfer_files_events [OF t] obtain new where
    n: "tr' = tr1 @ new" "list_all is_local_step new"
      "r = None \<longrightarrow> (\<exists>front. new = front @ [CopySpecificFiles (s @ ''/.github/workflows'') (''TargetRepo'' @ ''/.github/workflows'') None])"
      "r \<noteq> None \<longrightarrow> list_all (\<lambda>e. \<not> is_completed_copy e) new"
    by blast
  have nocopy: "list_all (\<lambda>e. \<not> is_completed_copy e) rest1"
    by (rule list_all_mono [OF l1]) (auto elim: is_file_transfer.elims is_completed_copy.elims)
  have "tr' = tr @ removal_of_old_clone w tr @ clone_command t None # (rest1 @ new)"
    using r1 n(1) by simp
  moreover have "list_all is_local_step (rest1 @ new)"
    using l1 n(2) by (auto simp: list_all_iff)
  moreover have "r = None \<longrightarrow> (\<exists>front. rest1 @ new = front @ [CopySpecificFiles (s @ ''/.github/workflows'') (''TargetRepo'' @ ''/.github/workflows'') None])"
    using n(3) by (metis append.assoc)
  moreover have "r \<noteq> None \<longrightarrow> list_all (\<lambda>e. \<not> is_completed_copy e) (rest1 @ new)"
    using n(4) nocopy by auto
  ultimately show ?thesis by blast
next
  case (Some err)
  obtain tr1 where c: "CloneRepository w t ''TargetRepo'' tr = (Some err, tr1)"
    using Some by (cases "CloneRepository w t ''TargetRepo'' tr") simp
  from CloneRepository_events [OF c] obtain cl rest1 where
    r1: "tr1 = tr @ removal_of_old_clone w tr @ clone_command t cl # rest1"
    and l1: "list_all (\<lambda>e. is_local_step e \<and> \<not> is_file_transfer e) rest1"
    by (auto simp: removal_of_old_clone_def clone_command_def)
  have "r = Some err" "tr' = tr1"
    using assms c by (simp_all add: locallySync_def)
  moreover have "list_all (\<lambda>e. \<not> is_completed_copy e) rest1"
    by (rule list_all_mono [OF l1]) (auto elim: is_file_transfer.elims is_completed_copy.elims)
  moreover have "list_all is_local_step rest1"
    by (rule list_all_mono [OF l1]) simp
  moreover have "(\<exists>e\<in>set rest1. is_file_transfer e) \<longrightarrow> cl = None"
    using l1 by (auto simp: list_all_iff)
  ultimately show ?thesis
    using r1 by blast
qed


lemma create_pull_request_events:
  "create_pull_request w owner name f d tr = (r, tr') \<Longrightarrow>
   \<exists>pr resp err. tr' = tr @ [PullRequests_Create owner name pr resp err]"
  by (auto simp: create_pull_request_def Let_def split: prod.splits option.splits sum.splits if_splits)

lemma SyncRepository_events:
  assumes "SyncRepository w t s tr0 = (result, tr)"
  shows "\<exists>before. list_all is_branch_step before \<and>
           (tr = tr0 @ before \<or>
            (\<exists>r tr4. locallySync w t s (tr0 @ before) = (r, tr4) \<and>
               (r \<noteq> None \<and> tr = tr4 \<or>
                r = None \<and> (\<exists>owner name pr resp err.
                               tr = tr4 @ [PullRequests_Create owner name pr resp err]))))"
proof (cases "RepoOwnerName t")
  case (Inl a)
  then have "tr = tr0 @ []" using assms by (simp add: SyncRepository_def)
  then show ?thesis by (intro exI [of _ "[]"]) simp
next
  case (Inr p)
  obtain owner name where p: "p = (owner, name)" by (cases p)
  let ?tr1 = "tr0 @ [Getenv ''GH_AUTH_TOKEN'' (on_Getenv w tr0 ''GH_AUTH_TOKEN'')]"
  show ?thesis
  proof (cases "on_Getenv w tr0 ''GH_AUTH_TOKEN'' = []")
    case True
    then have "tr = ?tr1" using assms Inr p by (simp add: SyncRepository_def getClient_def Let_def)
    then show ?thesis by (intro exI [of _ "[Getenv ''GH_AUTH_TOKEN'' (on_Getenv w tr0 ''GH_AUTH_TOKEN'')]"]) simp
  next
    case False
    let ?client = "on_Getenv w tr0 ''GH_AUTH_TOKEN''"
    have gc: "getClient w tr0 = (Inr ?client, ?tr1)"
      using False by (simp add: getClient_def Let_def)
    obtain d tr2 where gd: "getDefaultBranch w ?client owner name ?tr1 = (d, tr2)"
      by (cases "getDefaultBranch w ?client owner name ?tr1")
    from getDefaultBranch_events [OF gd] obtain n2 where
      n2: "tr2 = ?tr1 @ n2" "list_all is_branch_step n2" by blast
    show ?thesis
    proof (cases d)
      case (Inl err)
      then have "tr = tr2" using assms Inr p gc gd by (simp add: SyncRepository_def)
      then have "tr = tr0 @ (Getenv ''GH_AUTH_TOKEN'' ?client # n2)" using n2 by simp
      moreover have "list_all is_branch_step (Getenv ''GH_AUTH_TOKEN'' ?client # n2)"
        using n2 by simp
      ultimately show ?thesis by blast
    next
      case (Inr defaultBranch)
      obtain b tr3 where cb:
        "CreateAndPushToNewBranch w ?client owner name ''sync-workflows'' tr2 = (b, tr3)"
        by (cases "CreateAndPushToNewBranch w ?client owner name ''sync-workflows'' tr2")
      from CreateAndPushToNewBranch_events [OF cb] obtain n3 where
        n3: "tr3 = tr2 @ n3" "list_all is_branch_step n3" by blast
      let ?before = "Getenv ''GH_AUTH_TOKEN'' ?client # n2 @ n3"
      have tr3: "tr3 = tr0 @ ?before" using n2 n3 by simp
      have lb: "list_all is_branch_step ?before" using n2 n3 by simp
      show ?thesis
      proof (cases "b = Inr None")
        case False
        then have "tr = tr3"
          using assms \<open>RepoOwnerName t = Inr p\<close> p gc gd Inr cb
          by (auto simp: SyncRepository_def Let_def split: sum.splits option.splits)
        then show ?thesis using tr3 lb by blast
      next
        case True
        obtain r tr4 where ls: "locallySync w t s tr3 = (r, tr4)"
          by (cases "locallySync w t s tr3")
        show ?thesis
        proof (cases r)
          case (Some err)
          then have "tr = tr4"
            using assms \<open>RepoOwnerName t = Inr p\<close> p gc gd Inr cb True ls
            by (simp add: SyncRepository_def Let_def)
          then show ?thesis using tr3 lb ls Some by blast
        next
          case None
          then have "create_pull_request w owner name ''sync-workflows'' defaultBranch tr4 = (result, tr)"
            using assms \<open>RepoOwnerName t = Inr p\<close> p gc gd Inr cb True ls
            by (simp add: SyncRepository_def Let_def)
          from create_pull_request_events [OF this] obtain pr resp err where
            "tr = tr4 @ [PullRequests_Create owner name pr resp err]" by blast
          then show ?thesis using tr3 lb ls None by blast
        qed
      qed
    qed
  qed
qed


lemma branch_step_kinds:
  "is_branch_step e \<Longrightarrow> \<not> is_file_transfer e \<and> \<not> is_git ''commit'' e \<and> e \<noteq> CopySpecificFiles a b c"
  by (cases e) auto

lemma local_step_kinds:
  "is_local_step e \<Longrightarrow> \<not> is_git ''commit'' e \<and> \<not> is_git ''push'' e"
  by (cases e) auto

lemma removal_of_old_clone_kinds:
  "e \<in> set (removal_of_old_clone w tr) \<Longrightarrow>
   \<not> is_file_transfer e \<and> \<not> is_git ''commit'' e \<and> e \<noteq> CopySpecificFiles a b c"
  by (auto simp: removal_of_old_clone_def split: if_splits)

lemma removal_quiet:
  "list_all (\<lambda>e. \<not> is_git ''commit'' e \<and> \<not> is_completed_copy e) (removal_of_old_clone w tr)"
  by (simp add: removal_of_old_clone_def)

lemma clone_quiet:
  "\<not> is_git ''commit'' (clone_command t cl) \<and> \<not> is_completed_copy (clone_command t cl)"
  by (simp add: clone_command_def)

text \<open>Two attempts, evaluated: in the calm world, and with a clone directory left over.\<close>

lemmas attempt_defs = SyncRepository_def RepoOwnerName_def getClient_def getDefaultBranch_def
    CreateAndPushToNewBranch_def BranchExists_def checkout_and_push_def runCommand_def
    locallySync_def CloneRepository_def PathExists_call_def transfer_files_def CreateDirectory_call_def
    DeleteSpecificFiles_call_def CopySpecificFiles_call_def create_pull_request_def isOk_def
    Sprint_int_def Sprint_nat.simps newPullRequest_def Let_def DeleteBranch_def DeleteDirectory_call_def slug_def

lemma calm_attempt:
  "SyncRepository calm_world ''org/a'' ''source'' [] =
     (Inr (Some (''could not create pull request from '' @ [CHR 0x27] @ ''sync-workflows'' @
                 [CHR 0x27] @ '' to '' @ [CHR 0x27] @ ''main'' @ [CHR 0x27] @ '': 201 Created'')),
      [Getenv ''GH_AUTH_TOKEN'' ''token'',
       Repositories_Get ''org'' ''a'' (Some ''main'') None,
       Repositories_GetBranch ''org'' ''a'' ''sync-workflows'' False (Some not_found)
         (Some ''404 Not Found''),
       RunCommand ''git'' [''checkout'', ''-b'', ''sync-workflows''] None,
       RunCommand ''git'' [''push'', ''-u'', ''origin'', ''sync-workflows''] None,
       PathExists ''TargetRepo'' False,
       RunCommand ''git'' [''clone'', ''https://github.com/org/a.git'', ''TargetRepo''] None,
       RunCommand ''git'' [''remote'', ''set-url'', ''origin'', ''https://github.com/org/a.git'']
         None,
       PathExists ''TargetRepo/.github/workflows'' False,
       CreateDirectory ''TargetRepo/.github/workflows'' None,
       DeleteSpecificFiles ''TargetRepo/.github/workflows'' None,
       CopySpecificFiles ''source/.github/workflows'' ''TargetRepo/.github/workflows'' None,
       PullRequests_Create ''org'' ''a'' (newPullRequest ''sync-workflows'' ''main'')
         (Some created) None])"
  by (simp add: attempt_defs calm_world_def not_found_def created_def)

lemma leftover_attempt:
  "snd (SyncRepository leftover_world ''org/b'' ''source'' []) =
      [Getenv ''GH_AUTH_TOKEN'' ''token'',
       Repositories_Get ''org'' ''b'' (Some ''main'') None,
       Repositories_GetBranch ''org'' ''b'' ''sync-workflows'' False (Some not_found)
         (Some ''404 Not Found''),
       RunCommand ''git'' [''checkout'', ''-b'', ''sync-workflows''] None,
       RunCommand ''git'' [''push'', ''-u'', ''origin'', ''sync-workflows''] None,
       PathExists ''TargetRepo'' True,
       DeleteDirectory ''TargetRepo'',
       RunCommand ''git'' [''clone'', ''https://github.com/org/b.git'', ''TargetRepo''] None,
       RunCommand ''git'' [''remote'', ''set-url'', ''origin'', ''https://github.com/org/b.git'']
         None,
       PathExists ''TargetRepo/.github/workflows'' False,
       CreateDirectory ''TargetRepo/.github/workflows'' None,
       DeleteSpecificFiles ''TargetRepo/.github/workflows'' None,
       CopySpecificFiles ''source/.github/workflows'' ''TargetRepo/.github/workflows'' None,
       PullRequests_Create ''org'' ''b'' (newPullRequest ''sync-workflows'' ''main'')
         (Some created) None]"
  by (simp add: attempt_defs leftover_world_def calm_world_def not_found_def created_def)

lemma local_step_after_clone:
  "is_local_step e \<Longrightarrow> after_clone_step e \<and> (is_file_transfer e \<longrightarrow> works_in_clone e)"
  by (cases e) auto

text \<open>
  Claim C9.  In every sync attempt for a target, every file-transfer operation (creating
  the workflow directory, deleting or copying the managed files) works in
  \<^verbatim>\<open>TargetRepo/.github/workflows\<close>, the workflow directory of the shared clone directory.
  If any such operation runs, then before it the attempt has done nothing but reconcile the
  feature branch, has then checked whether \<^verbatim>\<open>TargetRepo\<close> exists, has deleted it exactly
  when it did, and has directly afterwards cloned the target repository into it with
  success; behind that clone the attempt deletes no directory and clones nothing again.  So
  the directory the transfer works in is the one made by this clone of the current target.
\<close>

theorem fresh_clone_before_file_transfer:
  assumes "SyncRepository w targetRepo sourceRepoDir tr0 = (result, tr)"
  shows "\<exists>new. tr = tr0 @ new \<and>
           (\<forall>e\<in>set new. is_file_transfer e \<longrightarrow> works_in_clone e) \<and>
           ((\<exists>e\<in>set new. is_file_transfer e) \<longrightarrow>
            (\<exists>before rest.
               new = before @ removal_of_old_clone w (tr0 @ before) @
                     clone_command targetRepo None # rest \<and>
               (\<forall>e\<in>set before. is_branch_step e \<and> \<not> is_file_transfer e) \<and>
               (\<forall>e\<in>set rest. after_clone_step e)))"
proof -
  from SyncRepository_events [OF assms] obtain before where
    b: "list_all is_branch_step before" and
    c: "tr = tr0 @ before \<or>
        (\<exists>r tr4. locallySync w targetRepo sourceRepoDir (tr0 @ before) = (r, tr4) \<and>
           (r \<noteq> None \<and> tr = tr4 \<or>
            r = None \<and> (\<exists>owner name pr resp err.
                           tr = tr4 @ [PullRequests_Create owner name pr resp err])))"
    by blast
  have nb: "\<forall>e\<in>set before. is_branch_step e \<and> \<not> is_file_transfer e"
    using b branch_step_kinds by (auto simp: list_all_iff)
  from c show ?thesis
  proof
    assume "tr = tr0 @ before"
    then show ?thesis using nb by blast
  next
    assume "\<exists>r tr4. locallySync w targetRepo sourceRepoDir (tr0 @ before) = (r, tr4) \<and>
           (r \<noteq> None \<and> tr = tr4 \<or>
            r = None \<and> (\<exists>owner name pr resp err.
                           tr = tr4 @ [PullRequests_Create owner name pr resp err]))"
    then obtain r tr4 where ls: "locallySync w targetRepo sourceRepoDir (tr0 @ before) = (r, tr4)"
      and t: "tr = tr4 \<or> (\<exists>owner name pr resp err. tr = tr4 @ [PullRequests_Create owner name pr resp err])"
      by blast
    from locallySync_events [OF ls] obtain cl rest where
      s: "tr4 = (tr0 @ before) @ removal_of_old_clone w (tr0 @ before) @ clone_command targetRepo cl # rest"
      and l: "list_all is_local_step rest"
      and f: "(\<exists>e\<in>set rest. is_file_transfer e) \<longrightarrow> cl = None"
      by blast
    have lr: "\<forall>e\<in>set rest. after_clone_step e \<and> (is_file_transfer e \<longrightarrow> works_in_clone e)"
      using l local_step_after_clone by (simp add: list_all_iff)
    have "\<exists>extra. tr = tr4 @ extra \<and>
            (\<forall>e\<in>set extra. \<not> is_file_transfer e \<and> after_clone_step e)"
    proof (cases "tr = tr4")
      case True
      then show ?thesis by (intro exI [of _ "[]"]) simp
    next
      case False
      then obtain owner name pr resp err where
        "tr = tr4 @ [PullRequests_Create owner name pr resp err]" using t by blast
      then show ?thesis
        by (intro exI [of _ "[PullRequests_Create owner name pr resp err]"]) simp
    qed
    then obtain extra where e: "tr = tr4 @ extra"
      "\<forall>e\<in>set extra. \<not> is_file_transfer e \<and> after_clone_step e"
      by blast
    let ?removal = "removal_of_old_clone w (tr0 @ before)"
    let ?new = "before @ ?removal @ clone_command targetRepo cl # (rest @ extra)"
    have n: "tr = tr0 @ ?new" using s e by simp
    have nr: "\<forall>e\<in>set ?removal. \<not> is_file_transfer e"
      using removal_of_old_clone_kinds by blast
    have nc: "\<not> is_file_transfer (clone_command targetRepo cl)"
      by (simp add: clone_command_def)
    have pinned: "\<forall>e\<in>set ?new. is_file_transfer e \<longrightarrow> works_in_clone e"
      using nb nr nc lr e(2) by auto
    have after: "\<forall>e\<in>set (rest @ extra). after_clone_step e"
      using lr e(2) by auto
    have "(\<exists>e\<in>set ?new. is_file_transfer e) \<longrightarrow> (\<exists>e\<in>set rest. is_file_transfer e)"
      using nb nr nc e(2) by auto
    then have "(\<exists>e\<in>set ?new. is_file_transfer e) \<longrightarrow> cl = None"
      using f by blast
    then have "(\<exists>e\<in>set ?new. is_file_transfer e) \<longrightarrow>
            (\<exists>before' rest'.
               ?new = before' @ removal_of_old_clone w (tr0 @ before') @
                     clone_command targetRepo None # rest' \<and>
               (\<forall>e\<in>set before'. is_branch_step e \<and> \<not> is_file_transfer e) \<and>
               (\<forall>e\<in>set rest'. after_clone_step e))"
      using nb after by blast
    then show ?thesis
      by (intro exI [of _ ?new] conjI) (rule n, rule pinned)
  qed
qed

theorem fresh_clone_before_file_transfer_witness:
  "\<exists>before rest.
     snd (SyncRepository leftover_world ''org/b'' ''source'' []) =
       before @ [PathExists ''TargetRepo'' True, DeleteDirectory ''TargetRepo'',
                 clone_command ''org/b'' None] @ rest \<and>
     list_all (\<lambda>e. is_branch_step e \<and> \<not> is_file_transfer e) before \<and>
     list_all after_clone_step rest \<and>
     \<not> list_all (\<lambda>e. \<not> is_file_transfer e) rest \<and>
     list_all (\<lambda>e. \<not> is_file_transfer e \<or> works_in_clone e)
       (snd (SyncRepository leftover_world ''org/b'' ''source'' []))"
proof -
  let ?tr = "snd (SyncRepository leftover_world ''org/b'' ''source'' [])"
  have run: "SyncRepository leftover_world ''org/b'' ''source'' [] =
               (fst (SyncRepository leftover_world ''org/b'' ''source'' []), ?tr)"
    by simp
  have ft: "\<exists>e\<in>set ?tr. is_file_transfer e"
    by (simp add: leftover_attempt)
  from fresh_clone_before_file_transfer [OF run] have
    pinned: "\<forall>e\<in>set ?tr. is_file_transfer e \<longrightarrow> works_in_clone e" and
    shape: "(\<exists>e\<in>set ?tr. is_file_transfer e) \<longrightarrow>
            (\<exists>before rest.
               ?tr = before @ removal_of_old_clone leftover_world ([] @ before) @
                     clone_command ''org/b'' None # rest \<and>
               (\<forall>e\<in>set before. is_branch_step e \<and> \<not> is_file_transfer e) \<and>
               (\<forall>e\<in>set rest. after_clone_step e))"
    by auto
  from shape ft obtain before rest where
    s: "?tr = before @ removal_of_old_clone leftover_world ([] @ before) @
              clone_command ''org/b'' None # rest"
    and b: "\<forall>e\<in>set before. is_branch_step e \<and> \<not> is_file_transfer e"
    and a: "\<forall>e\<in>set rest. after_clone_step e"
    by blast
  have r: "removal_of_old_clone leftover_world ([] @ before) =
             [PathExists ''TargetRepo'' True, DeleteDirectory ''TargetRepo'']"
    by (simp add: removal_of_old_clone_def leftover_world_def)
  have "\<exists>e\<in>set rest. is_file_transfer e"
    using ft b unfolding s r by (auto simp: clone_command_def)
  then have 1: "?tr = before @ [PathExists ''TargetRepo'' True, DeleteDirectory ''TargetRepo'',
                 clone_command ''org/b'' None] @ rest \<and>
     list_all (\<lambda>e. is_branch_step e \<and> \<not> is_file_transfer e) before \<and>
     list_all after_clone_step rest \<and>
     \<not> list_all (\<lambda>e. \<not> is_file_transfer e) rest"
    using s b a unfolding r by (simp add: list_all_iff)
  have 2: "list_all (\<lambda>e. \<not> is_file_transfer e \<or> works_in_clone e) ?tr"
    using pinned by (auto simp: list_all_iff)
  from 1 2 show ?thesis by blast
qed

text \<open>
  Claim C4, as the code has it.  A sync attempt runs no \<^verbatim>\<open>git commit\<close> at all.  When
  its copy step has ended without error, the events of the attempt end with that copy step
  and, directly behind it, the request that creates the pull request; between the clone
  of the target and that request no \<^verbatim>\<open>git push\<close> runs.
\<close>

theorem pull_request_directly_after_transfer:
  assumes "SyncRepository w targetRepo sourceRepoDir tr0 = (result, tr)"
  shows "\<exists>new. tr = tr0 @ new \<and> list_all (\<lambda>e. \<not> is_git ''commit'' e) new \<and>
           (\<not> list_all (\<lambda>e. \<not> is_completed_copy e) new \<longrightarrow>
            (\<exists>before cloned local owner name pr resp err.
               new = before @ clone_command targetRepo cloned # local @
                     [CopySpecificFiles (sourceRepoDir @ ''/.github/workflows'')
                        (''TargetRepo'' @ ''/.github/workflows'') None,
                      PullRequests_Create owner name pr resp err] \<and>
               list_all (\<lambda>e. \<not> is_git ''push'' e) local))"
proof -
  from SyncRepository_events [OF assms] obtain before where
    b: "list_all is_branch_step before" and
    c: "tr = tr0 @ before \<or>
        (\<exists>r tr4. locallySync w targetRepo sourceRepoDir (tr0 @ before) = (r, tr4) \<and>
           (r \<noteq> None \<and> tr = tr4 \<or>
            r = None \<and> (\<exists>owner name pr resp err.
                           tr = tr4 @ [PullRequests_Create owner name pr resp err])))"
    by blast
  have nb: "list_all (\<lambda>e. \<not> is_git ''commit'' e) before"
    by (rule list_all_mono [OF b]) (simp add: branch_step_kinds)
  have cb: "list_all (\<lambda>e. \<not> is_completed_copy e) before"
    by (rule list_all_mono [OF b]) (simp add: branch_step_not_copy)
  let ?removal = "removal_of_old_clone w (tr0 @ before)"
  have nr: "list_all (\<lambda>e. \<not> is_git ''commit'' e) ?removal"
    by (rule list_all_mono [OF removal_quiet]) simp
  have cr: "list_all (\<lambda>e. \<not> is_completed_copy e) ?removal"
    by (rule list_all_mono [OF removal_quiet]) simp
  from c show ?thesis
  proof
    assume "tr = tr0 @ before"
    then show ?thesis using nb cb by (intro exI [of _ before]) simp
  next
    assume "\<exists>r tr4. locallySync w targetRepo sourceRepoDir (tr0 @ before) = (r, tr4) \<and>
           (r \<noteq> None \<and> tr = tr4 \<or>
            r = None \<and> (\<exists>owner name pr resp err.
                           tr = tr4 @ [PullRequests_Create owner name pr resp err]))"
    then obtain r tr4 where ls: "locallySync w targetRepo sourceRepoDir (tr0 @ before) = (r, tr4)"
      and t: "r \<noteq> None \<and> tr = tr4 \<or>
              r = None \<and> (\<exists>owner name pr resp err. tr = tr4 @ [PullRequests_Create owner name pr resp err])"
      by blast
    from locallySync_events [OF ls] obtain cl rest where
      s: "tr4 = (tr0 @ before) @ ?removal @ clone_command targetRepo cl # rest"
      and l: "list_all is_local_step rest"
      and ok: "r = None \<longrightarrow> (\<exists>front. rest = front @
                 [CopySpecificFiles (sourceRepoDir @ ''/.github/workflows'')
                    (''TargetRepo'' @ ''/.github/workflows'') None])"
      and ko: "r \<noteq> None \<longrightarrow> list_all (\<lambda>e. \<not> is_completed_copy e) rest"
      by blast
    have nl: "list_all (\<lambda>e. \<not> is_git ''commit'' e) rest"
      by (rule list_all_mono [OF l]) (simp add: local_step_kinds)
    have pl: "list_all (\<lambda>e. \<not> is_git ''push'' e) rest"
      by (rule list_all_mono [OF l]) (simp add: local_step_kinds)
    from t show ?thesis
    proof
      assume a: "r \<noteq> None \<and> tr = tr4"
      let ?new = "before @ ?removal @ clone_command targetRepo cl # rest"
      have 1: "tr = tr0 @ ?new" using a s by simp
      have 2: "list_all (\<lambda>e. \<not> is_git ''commit'' e) ?new"
        using nb nr nl by (simp add: clone_quiet)
      have 3: "list_all (\<lambda>e. \<not> is_completed_copy e) ?new"
        using cb cr ko a by (simp add: clone_quiet)
      show ?thesis
        using 1 2 3 by (intro exI [of _ ?new]) simp
    next
      assume a: "r = None \<and> (\<exists>owner name pr resp err. tr = tr4 @ [PullRequests_Create owner name pr resp err])"
      then obtain owner name pr resp err where
        p: "tr = tr4 @ [PullRequests_Create owner name pr resp err]" by blast
      from a ok obtain front where
        f: "rest = front @ [CopySpecificFiles (sourceRepoDir @ ''/.github/workflows'')
                    (''TargetRepo'' @ ''/.github/workflows'') None]" by blast
      let ?new = "(before @ ?removal) @ clone_command targetRepo cl # front @
                   [CopySpecificFiles (sourceRepoDir @ ''/.github/workflows'')
                      (''TargetRepo'' @ ''/.github/workflows'') None,
                    PullRequests_Create owner name pr resp err]"
      have 1: "tr = tr0 @ ?new" using p s f by simp
      have 2: "list_all (\<lambda>e. \<not> is_git ''commit'' e) ?new"
        using nb nr nl f by (simp add: clone_quiet)
      have 3: "list_all (\<lambda>e. \<not> is_git ''push'' e) front" using pl f by simp
      have 4: "\<exists>before cloned local owner name pr resp err.
               ?new = before @ clone_command targetRepo cloned # local @
                     [CopySpecificFiles (sourceRepoDir @ ''/.github/workflows'')
                        (''TargetRepo'' @ ''/.github/workflows'') None,
                      PullRequests_Create owner name pr resp err] \<and>
               list_all (\<lambda>e. \<not> is_git ''push'' e) local"
        using 3 by (intro exI [of _ "before @ ?removal"] exI [of _ cl] exI [of _ front]
                      exI [of _ owner] exI [of _ name] exI [of _ pr] exI [of _ resp] exI [of _ err])
                   simp
      show ?thesis
        by (rule exI [of _ ?new], intro conjI impI) (rule 1, rule 2, rule 4)
    qed
  qed
qed

theorem pull_request_directly_after_transfer_witness:
  "\<exists>before cloned local owner name pr resp err.
     snd (SyncRepository calm_world ''org/a'' ''source'' []) =
       before @ clone_command ''org/a'' cloned # local @
       [CopySpecificFiles ''source/.github/workflows'' ''TargetRepo/.github/workflows'' None,
        PullRequests_Create owner name pr resp err] \<and>
     list_all (\<lambda>e. \<not> is_git ''push'' e) local \<and>
     list_all (\<lambda>e. \<not> is_git ''commit'' e) (snd (SyncRepository calm_world ''org/a'' ''source'' []))"
proof -
  let ?tr = "snd (SyncRepository calm_world ''org/a'' ''source'' [])"
  have run: "SyncRepository calm_world ''org/a'' ''source'' [] =
               (fst (SyncRepository calm_world ''org/a'' ''source'' []), ?tr)"
    by simp
  have cp: "\<not> list_all (\<lambda>e. \<not> is_completed_copy e) ?tr"
    by (simp add: calm_attempt)
  from pull_request_directly_after_transfer [OF run] cp show ?thesis
    by auto
qed

text \<open>
  Claim C4 as stated fails: in the calm world the attempt for \<^verbatim>\<open>org/a\<close> transfers the
  files and creates the pull request, and it never commits; its only push is the one of
  the new, still empty feature branch, before the target is cloned.
\<close>

theorem no_commit_counterexample:
  "snd (SyncRepository calm_world ''org/a'' ''source'' []) =
      [Getenv ''GH_AUTH_TOKEN'' ''token'',
       Repositories_Get ''org'' ''a'' (Some ''main'') None,
       Repositories_GetBranch ''org'' ''a'' ''sync-workflows'' False (Some not_found)
         (Some ''404 Not Found''),
       RunCommand ''git'' [''checkout'', ''-b'', ''sync-workflows''] None,
       RunCommand ''git'' [''push'', ''-u'', ''origin'', ''sync-workflows''] None,
       PathExists ''TargetRepo'' False,
       RunCommand ''git'' [''clone'', ''https://github.com/org/a.git'', ''TargetRepo''] None,
       RunCommand ''git'' [''remote'', ''set-url'', ''origin'', ''https://github.com/org/a.git'']
         None,
       PathExists ''TargetRepo/.github/workflows'' False,
       CreateDirectory ''TargetRepo/.github/workflows'' None,
       DeleteSpecificFiles ''TargetRepo/.github/workflows'' None,
       CopySpecificFiles ''source/.github/workflows'' ''TargetRepo/.github/workflows'' None,
       PullRequests_Create ''org'' ''a'' (newPullRequest ''sync-workflows'' ''main'')
         (Some created) None] \<and>
   list_all (\<lambda>e. \<not> is_git ''commit'' e) (snd (SyncRepository calm_world ''org/a'' ''source'' []))"
  by (simp add: calm_attempt)

text \<open>
  Claim C1.  The claim is what a function named \<open>isOk\<close> is for, but the function
  answers the opposite: false for the status 201 and true for 404.  So in the calm world,
  where the platform creates the pull request without error and answers 201, the attempt
  returns the could-not-create-pull-request error.
\<close>

theorem SyncRepository_fails_when_created:
  "isOk (Some created) = Inr False \<and>
   isOk (Some not_found) = Inr True \<and>
   fst (SyncRepository calm_world ''org/a'' ''source'' []) =
     Inr (Some (''could not create pull request from '' @ [CHR 0x27] @ ''sync-workflows'' @
                [CHR 0x27] @ '' to '' @ [CHR 0x27] @ ''main'' @ [CHR 0x27] @ '': 201 Created''))"
  by (simp add: calm_attempt isOk_def created_def not_found_def Sprint_int_def Sprint_nat.simps)

text \<open>
  Claim C10.  \<open>BranchExists\<close> looks at the status of the response first: with the
  status 404 it returns false and no error, whatever error came with it.  It returns an
  error only when the lookup gave an error together with a response whose status is not
  404.  When the lookup gives no response, the nil response is dereferenced and the call
  panics.
\<close>

theorem BranchExists_status_before_error:
  "(on_Repositories_GetBranch w tr owner name branch = (info, Some resp, err) \<and>
      StatusCode resp = 404 \<longrightarrow>
      fst (BranchExists w client owner name branch tr) = Inr (Inr False)) \<and>
   (fst (BranchExists w client owner name branch tr) = Inr (Inl message) \<longrightarrow>
      (\<exists>info' resp' e.
         on_Repositories_GetBranch w tr owner name branch = (info', Some resp', Some e) \<and>
         StatusCode resp' \<noteq> 404)) \<and>
   (on_Repositories_GetBranch w tr owner name branch = (info, None, err) \<longrightarrow>
      fst (BranchExists w client owner name branch tr) = Inl nil_dereference)"
  by (auto simp: BranchExists_def Let_def split: prod.splits option.splits if_splits)

theorem BranchExists_status_before_error_witness:
  "on_Repositories_GetBranch calm_world [] ''org'' ''a'' ''sync-workflows'' =
     (False, Some not_found, Some ''404 Not Found'') \<and>
   fst (BranchExists calm_world ''token'' ''org'' ''a'' ''sync-workflows'' []) = Inr (Inr False) \<and>
   fst (BranchExists server_error_world ''token'' ''org'' ''a'' ''sync-workflows'' []) =
     Inr (Inl (''could not get branch info from '' @ [CHR 0x27] @ ''org/a@sync-workflows'' @
               [CHR 0x27] @ '': 500 Internal Server Error'')) \<and>
   on_Repositories_GetBranch server_error_world [] ''org'' ''a'' ''sync-workflows'' =
     (False, Some server_error, Some ''500 Internal Server Error'') \<and>
   fst (BranchExists timeout_world ''token'' ''org'' ''a'' ''sync-workflows'' []) =
     Inl nil_dereference"
proof -
  have calm: "on_Repositories_GetBranch calm_world [] ''org'' ''a'' ''sync-workflows'' =
                (False, Some not_found, Some ''404 Not Found'')"
    by (simp add: calm_world_def)
  have gone: "on_Repositories_GetBranch timeout_world [] ''org'' ''a'' ''sync-workflows'' =
                (False, None, Some ''dial tcp: i/o timeout'')"
    by (simp add: timeout_world_def)
  have broken: "fst (BranchExists server_error_world ''token'' ''org'' ''a'' ''sync-workflows'' []) =
     Inr (Inl (''could not get branch info from '' @ [CHR 0x27] @ ''org/a@sync-workflows'' @
               [CHR 0x27] @ '': 500 Internal Server Error''))"
    by (simp add: BranchExists_def server_error_world_def server_error_def slug_def)
  have "StatusCode not_found = 404"
    by (simp add: not_found_def)
  with calm gone broken show ?thesis
    using BranchExists_status_before_error
            [of calm_world "[]" "''org''" "''a''" "''sync-workflows''" False not_found
                "Some ''404 Not Found''" "''token''"]
          BranchExists_status_before_error
            [of timeout_world "[]" "''org''" "''a''" "''sync-workflows''" False not_found
                "Some ''dial tcp: i/o timeout''" "''token''"]
    by (simp add: server_error_world_def)
qed

section \<open>Managed files\<close>

lemma match_extension_iff:
  "match_extension s = (\<exists>q. s = ''.yml'' @ q \<or> s = ''.yaml'' @ q)"
proof
  assume "match_extension s"
  then have "take 4 s = ''.yml'' \<or> take 5 s = ''.yaml''"
    by (simp add: match_extension_def)
  then have "s = ''.yml'' @ drop 4 s \<or> s = ''.yaml'' @ drop 5 s"
    by (metis append_take_drop_id)
  then show "\<exists>q. s = ''.yml'' @ q \<or> s = ''.yaml'' @ q" by blast
next
  assume "\<exists>q. s = ''.yml'' @ q \<or> s = ''.yaml'' @ q"
  then show "match_extension s"
    by (auto simp: match_extension_def)
qed

lemma match_any_then_extension_iff:
  "match_any_then_extension s =
     (\<exists>m q. m \<noteq> [] \<and> CHR 0x0A \<notin> set m \<and> (s = m @ ''.yml'' @ q \<or> s = m @ ''.yaml'' @ q))"
proof (induction s)
  case Nil
  then show ?case by simp
next
  case (Cons c cs)
  show ?case
  proof
    assume "match_any_then_extension (c # cs)"
    then have c: "c \<noteq> CHR 0x0A" and d: "match_extension cs \<or> match_any_then_extension cs"
      by simp_all
    from d show "\<exists>m q. m \<noteq> [] \<and> CHR 0x0A \<notin> set m \<and>
                   (c # cs = m @ ''.yml'' @ q \<or> c # cs = m @ ''.yaml'' @ q)"
    proof
      assume "match_extension cs"
      then obtain q where "cs = ''.yml'' @ q \<or> cs = ''.yaml'' @ q"
        using match_extension_iff by blast
      then have "[c] \<noteq> [] \<and> CHR 0x0A \<notin> set [c] \<and>
                 (c # cs = [c] @ ''.yml'' @ q \<or> c # cs = [c] @ ''.yaml'' @ q)"
        using c by auto
      then show ?thesis by blast
    next
      assume "match_any_then_extension cs"
      then obtain m q where "m \<noteq> []" "CHR 0x0A \<notin> set m"
        "cs = m @ ''.yml'' @ q \<or> cs = m @ ''.yaml'' @ q"
        using Cons.IH by blast
      then have "c # m \<noteq> [] \<and> CHR 0x0A \<notin> set (c # m) \<and>
                 (c # cs = (c # m) @ ''.yml'' @ q \<or> c # cs = (c # m) @ ''.yaml'' @ q)"
        using c by auto
      then show ?thesis by blast
    qed
  next
    assume "\<exists>m q. m \<noteq> [] \<and> CHR 0x0A \<notin> set m \<and>
                   (c # cs = m @ ''.yml'' @ q \<or> c # cs = m @ ''.yaml'' @ q)"
    then obtain m q where m: "m \<noteq> []" "CHR 0x0A \<notin> set m"
      and e: "c # cs = m @ ''.yml'' @ q \<or> c # cs = m @ ''.yaml'' @ q"
      by blast
    from m(1) obtain m' where m': "m = c # m'"
      using e by (cases m) auto
    then have cs: "cs = m' @ ''.yml'' @ q \<or> cs = m' @ ''.yaml'' @ q"
      using e by auto
    have c: "c \<noteq> CHR 0x0A" using m(2) m' by auto
    show "match_any_then_extension (c # cs)"
    proof (cases "m' = []")
      case True
      then have "match_extension cs" using cs match_extension_iff by auto
      then show ?thesis using c by simp
    next
      case False
      then have "match_any_then_extension cs"
        using Cons.IH cs m(2) m' by auto
      then show ?thesis using c by simp
    qed
  qed
qed

lemma match_here_iff:
  "match_syncedFilePattern_here s =
     (\<exists>m q. m \<noteq> [] \<and> CHR 0x0A \<notin> set m \<and>
        (s = ''synced_'' @ m @ ''.yml'' @ q \<or> s = ''synced_'' @ m @ ''.yaml'' @ q))"
proof
  assume "match_syncedFilePattern_here s"
  then have t: "take 7 s = ''synced_''" and d: "match_any_then_extension (drop 7 s)"
    by (simp_all add: match_syncedFilePattern_here_def)
  from d obtain m q where m: "m \<noteq> []" "CHR 0x0A \<notin> set m"
    "drop 7 s = m @ ''.yml'' @ q \<or> drop 7 s = m @ ''.yaml'' @ q"
    using match_any_then_extension_iff by blast
  have "s = take 7 s @ drop 7 s" by simp
  then have "s = ''synced_'' @ drop 7 s" using t by simp
  then have "s = ''synced_'' @ m @ ''.yml'' @ q \<or> s = ''synced_'' @ m @ ''.yaml'' @ q"
    using m(3) by metis
  then show "\<exists>m q. m \<noteq> [] \<and> CHR 0x0A \<notin> set m \<and>
        (s = ''synced_'' @ m @ ''.yml'' @ q \<or> s = ''synced_'' @ m @ ''.yaml'' @ q)"
    using m(1,2) by blast
next
  assume "\<exists>m q. m \<noteq> [] \<and> CHR 0x0A \<notin> set m \<and>
        (s = ''synced_'' @ m @ ''.yml'' @ q \<or> s = ''synced_'' @ m @ ''.yaml'' @ q)"
  then obtain m q where m: "m \<noteq> []" "CHR 0x0A \<notin> set m"
    and e: "s = ''synced_'' @ m @ ''.yml'' @ q \<or> s = ''synced_'' @ m @ ''.yaml'' @ q"
    by blast
  from e have "take 7 s = ''synced_''" by auto
  moreover from e have "drop 7 s = m @ ''.yml'' @ q \<or> drop 7 s = m @ ''.yaml'' @ q" by auto
  then have "match_any_then_extension (drop 7 s)"
    using m match_any_then_extension_iff by blast
  ultimately show "match_syncedFilePattern_here s"
    by (simp add: match_syncedFilePattern_here_def)
qed

lemma MatchString_iff_suffix:
  "syncedFilePattern_MatchString s = (\<exists>p t. s = p @ t \<and> match_syncedFilePattern_here t)"
proof (induction s)
  case Nil
  then show ?case by simp
next
  case (Cons c cs)
  show ?case
  proof
    assume "syncedFilePattern_MatchString (c # cs)"
    then consider "match_syncedFilePattern_here (c # cs)" | "syncedFilePattern_MatchString cs"
      by auto
    then show "\<exists>p t. c # cs = p @ t \<and> match_syncedFilePattern_here t"
    proof cases
      case 1
      then show ?thesis by (metis append_Nil)
    next
      case 2
      then obtain p t where "cs = p @ t" "match_syncedFilePattern_here t"
        using Cons.IH by blast
      then show ?thesis by (metis append_Cons)
    qed
  next
    assume "\<exists>p t. c # cs = p @ t \<and> match_syncedFilePattern_here t"
    then obtain p t where e: "c # cs = p @ t" and m: "match_syncedFilePattern_here t" by blast
    show "syncedFilePattern_MatchString (c # cs)"
    proof (cases p)
      case Nil
      then have "t = c # cs" using e by simp
      then show ?thesis using m by simp
    next
      case (Cons a p')
      then have "cs = p' @ t" using e by simp
      then have "syncedFilePattern_MatchString cs" using Cons.IH m by blast
      then show ?thesis by simp
    qed
  qed
qed

lemma isSyncedFile_iff:
  "isSyncedFile f =
     (\<exists>p m q. m \<noteq> [] \<and> CHR 0x0A \<notin> set m \<and>
        (f = p @ ''synced_'' @ m @ ''.yml'' @ q \<or> f = p @ ''synced_'' @ m @ ''.yaml'' @ q))"
  unfolding isSyncedFile_def MatchString_iff_suffix match_here_iff by blast

lemma transfer_spec_eq:
  "transfer_spec src dst f =
     (if isSyncedFile f then src f else dst f)"
  by (simp add: transfer_spec_def CopySpecificFiles_spec_def DeleteSpecificFiles_spec_def)

text \<open>
  Claim C7, as the code has it.  \<open>isSyncedFile\<close> searches the name for the pattern: a
  name is classified as managed exactly when somewhere in it stands \<^verbatim>\<open>synced_\<close>, then
  at least one byte and no line feed, then \<^verbatim>\<open>.yml\<close> or \<^verbatim>\<open>.yaml\<close>; what precedes
  and what follows is free.  With the file helpers doing what section 4.3 of the
  specification says, the transfer gives every name so classified the content it has in the
  source directory (none, if the source has no such file) and leaves every other name of the
  target directory as it was.
\<close>

theorem managed_files_by_search:
  "isSyncedFile f =
     (\<exists>p m q. m \<noteq> [] \<and> CHR 0x0A \<notin> set m \<and>
        (f = p @ ''synced_'' @ m @ ''.yml'' @ q \<or> f = p @ ''synced_'' @ m @ ''.yaml'' @ q)) \<and>
   transfer_spec sourceWorkflows targetWorkflows f =
     (if isSyncedFile f then sourceWorkflows f else targetWorkflows f)"
  using isSyncedFile_iff [of f] transfer_spec_eq [of sourceWorkflows targetWorkflows f]
  by (rule conjI)

theorem managed_files_by_search_witness:
  "isSyncedFile ''synced_ci.yml'' \<and> isSyncedFile ''synced_release.yaml'' \<and>
   \<not> isSyncedFile ''manual.yml'' \<and> \<not> isSyncedFile ''synced_.yml'' \<and>
   transfer_spec [''synced_ci.yml'' \<mapsto> ''new''] [''synced_ci.yml'' \<mapsto> ''old'', ''manual.yml'' \<mapsto> ''mine'']
     ''manual.yml'' = Some ''mine'' \<and>
   transfer_spec [''synced_ci.yml'' \<mapsto> ''new''] [''synced_ci.yml'' \<mapsto> ''old'', ''manual.yml'' \<mapsto> ''mine'']
     ''synced_ci.yml'' = Some ''new''"
proof -
  have c: "isSyncedFile ''synced_ci.yml'' \<and> isSyncedFile ''synced_release.yaml'' \<and>
           \<not> isSyncedFile ''manual.yml'' \<and> \<not> isSyncedFile ''synced_.yml''"
    by (simp add: isSyncedFile_def match_syncedFilePattern_here_def match_extension_def)
  then show ?thesis
    using managed_files_by_search
            [of "''manual.yml''" "[''synced_ci.yml'' \<mapsto> ''new'']"
                "[''synced_ci.yml'' \<mapsto> ''old'', ''manual.yml'' \<mapsto> ''mine'']"]
          managed_files_by_search
            [of "''synced_ci.yml''" "[''synced_ci.yml'' \<mapsto> ''new'']"
                "[''synced_ci.yml'' \<mapsto> ''old'', ''manual.yml'' \<mapsto> ''mine'']"]
    by simp
qed

text \<open>
  Claim C7 as stated fails: \<^verbatim>\<open>unsynced_old.yml.bak\<close> is not of the form
  \<^verbatim>\<open>synced_<name>.yml\<close> and merely contains \<^verbatim>\<open>synced_\<close>, yet it is classified as
  managed, and the transfer deletes it from the target directory.
\<close>

theorem managed_files_counterexample:
  "isSyncedFile ''unsynced_old.yml.bak'' \<and> \<not> spec_managed_file ''unsynced_old.yml.bak'' \<and>
   transfer_spec Map.empty [''unsynced_old.yml.bak'' \<mapsto> ''kept by hand'']
     ''unsynced_old.yml.bak'' = None \<and>
   spec_managed_file ''synced_ci.yml'' \<and> isSyncedFile ''synced_ci.yml''"
  by (simp add: isSyncedFile_def match_syncedFilePattern_here_def match_extension_def
        spec_managed_file_def transfer_spec_def CopySpecificFiles_spec_def
        DeleteSpecificFiles_spec_def)

section \<open>The replacement of line breaks\<close>






lemma match_Cons_cases:
  "newlinePattern_match (c # xs) = 0 \<longleftrightarrow>
     c \<noteq> CHR 0x0D \<and> c \<noteq> CHR 0x0A \<and> c \<noteq> CHR 0x0B \<and> c \<noteq> CHR 0x0C \<and>
     \<not> (c = CHR 0xC2 \<and> take 1 xs = [CHR 0x85]) \<and>
     \<not> (c = CHR 0xE2 \<and> (take 2 xs = [CHR 0x80, CHR 0xA8] \<or> take 2 xs = [CHR 0x80, CHR 0xA9]))"
  by (cases xs; cases "tl xs") (auto simp: newlinePattern_match_def)










lemma no_line_break_plain_Cons:
  "plain c \<Longrightarrow> no_line_break z \<Longrightarrow> no_line_break (c # z)"
  by (simp add: match_Cons_cases plain_def)







section \<open>The rendered report\<close>




















lemma example_summary:
  "error_summary outcome_b =
     ''- '' @ cross_mark @
     '' **[`b`](https://github.com/org/b)** (could not create and push to new branch: network is unreachable; exit status 128)''"
  by (simp add: error_summary_def repo_link_def formatRepo_def RepoOwnerName_def outcome_b_def
        network_error_def newlinePattern_ReplaceAllString_def newlinePattern_match_def)

lemma fmtFrac_numeral:
  "fmtFrac (numeral k) v print acc =
     (let digit = v mod 10; print' = (print \<or> digit \<noteq> 0) in
      fmtFrac (pred_numeral k) (v div 10) print' (if print' then Sprint_nat digit @ acc else acc))"
  by (simp only: numeral_eq_Suc [of k] fmtFrac.simps)

lemma example_rows:
  "row_of outcome_a =
     ''| **[`a`](https://github.com/org/a)** | '' @ check_mark @ '' | <ul><li>'' @
     formatPullRequestStatus outcome_a @
     '' [**(sync): update workflows**](https://github.com/org/a/pull/12) #12</li></ul> | 1m2s |'' \<and>
   row_of outcome_b =
     ''| **[`b`](https://github.com/org/b)** | '' @ cross_mark @
     '' | <ul><li>Could not create.</li></ul> | 2m3s |''"
  by (simp add: row_of_def table_row_def formatRepo_def RepoOwnerName_def formatPullRequest_def
        formatSuccess_def formatTime_def Duration_String_def Duration_Round_def Second_def
        Sprint_int_def Sprint_nat.simps outcome_a_def outcome_b_def pull_request_12_def
        wrap64_def maxDuration_def minDuration_def Let_def fmtFrac_numeral)



section \<open>The run and its report\<close>






















end
